theory Spec2Isabelle
  imports Complex_Main "HOL-Library.Log_Nat"
begin

section \<open>JavaScript numbers\<close>

text \<open>
  The program computes with JavaScript numbers. They are modelled as rationals
  extended with the three special values that the program's divisions can produce.
  The operations \<open>js_add\<close>, \<open>js_sub\<close>, \<open>js_mul\<close> and \<open>js_div\<close> below compute the exact
  result. The operations \<open>d_add\<close>, \<open>d_sub\<close>, \<open>d_mul\<close> and \<open>d_div\<close> further down round
  it to the nearest IEEE-754 double, as JavaScript does; the summary statistics are
  modelled with them, because there the order of the roundings decides what is
  returned. The two zeros are not distinguished (a division by zero is a division
  by +0, which is the only zero the program's divisors can be).
\<close>

datatype jsnum = Fin rat | PInf | NInf | NaN

fun js_neg :: "jsnum \<Rightarrow> jsnum" where
  "js_neg (Fin a) = Fin (- a)"
| "js_neg PInf = NInf"
| "js_neg NInf = PInf"
| "js_neg NaN = NaN"

fun js_add :: "jsnum \<Rightarrow> jsnum \<Rightarrow> jsnum" where
  "js_add NaN y = NaN"
| "js_add x NaN = NaN"
| "js_add (Fin a) (Fin b) = Fin (a + b)"
| "js_add PInf NInf = NaN"
| "js_add NInf PInf = NaN"
| "js_add PInf y = PInf"
| "js_add x PInf = PInf"
| "js_add NInf y = NInf"
| "js_add x NInf = NInf"

definition js_sub :: "jsnum \<Rightarrow> jsnum \<Rightarrow> jsnum" where
  "js_sub x y = js_add x (js_neg y)"

fun js_mul :: "jsnum \<Rightarrow> jsnum \<Rightarrow> jsnum" where
  "js_mul NaN y = NaN"
| "js_mul x NaN = NaN"
| "js_mul (Fin a) (Fin b) = Fin (a * b)"
| "js_mul (Fin a) PInf = (if a = 0 then NaN else if 0 < a then PInf else NInf)"
| "js_mul (Fin a) NInf = (if a = 0 then NaN else if 0 < a then NInf else PInf)"
| "js_mul PInf (Fin b) = (if b = 0 then NaN else if 0 < b then PInf else NInf)"
| "js_mul NInf (Fin b) = (if b = 0 then NaN else if 0 < b then NInf else PInf)"
| "js_mul PInf PInf = PInf"
| "js_mul PInf NInf = NInf"
| "js_mul NInf PInf = NInf"
| "js_mul NInf NInf = PInf"

fun js_div :: "jsnum \<Rightarrow> jsnum \<Rightarrow> jsnum" where
  "js_div NaN y = NaN"
| "js_div x NaN = NaN"
| "js_div (Fin a) (Fin b) =
     (if b = 0 then (if a = 0 then NaN else if 0 < a then PInf else NInf)
      else Fin (a / b))"
| "js_div (Fin a) PInf = Fin 0"
| "js_div (Fin a) NInf = Fin 0"
| "js_div PInf (Fin b) = (if 0 \<le> b then PInf else NInf)"
| "js_div NInf (Fin b) = (if 0 \<le> b then NInf else PInf)"
| "js_div PInf PInf = NaN"
| "js_div PInf NInf = NaN"
| "js_div NInf PInf = NaN"
| "js_div NInf NInf = NaN"

text \<open>The comparison operators: every comparison with \<open>NaN\<close> is false.\<close>

fun js_lt :: "jsnum \<Rightarrow> jsnum \<Rightarrow> bool" where
  "js_lt NaN y = False"
| "js_lt x NaN = False"
| "js_lt (Fin a) (Fin b) = (a < b)"
| "js_lt x NInf = False"
| "js_lt PInf y = False"
| "js_lt NInf y = True"
| "js_lt x PInf = True"

definition js_gt :: "jsnum \<Rightarrow> jsnum \<Rightarrow> bool" where
  "js_gt x y = js_lt y x"

definition js_le :: "jsnum \<Rightarrow> jsnum \<Rightarrow> bool" where
  "js_le x y = (x \<noteq> NaN \<and> y \<noteq> NaN \<and> \<not> js_lt y x)"

definition js_ge :: "jsnum \<Rightarrow> jsnum \<Rightarrow> bool" where
  "js_ge x y = js_le y x"

text \<open>\<open>===\<close> on two numbers, and the truth value of a number in a condition.\<close>

definition js_strict_eq :: "jsnum \<Rightarrow> jsnum \<Rightarrow> bool" where
  "js_strict_eq x y = (x \<noteq> NaN \<and> x = y)"

definition js_truthy :: "jsnum \<Rightarrow> bool" where
  "js_truthy x = (x \<noteq> NaN \<and> x \<noteq> Fin 0)"

text \<open>\<open>Math.max\<close> and \<open>Math.min\<close> of two arguments return \<open>NaN\<close> when either is.\<close>

definition js_max :: "jsnum \<Rightarrow> jsnum \<Rightarrow> jsnum" where
  "js_max x y = (if x = NaN \<or> y = NaN then NaN else if js_lt x y then y else x)"

definition js_min :: "jsnum \<Rightarrow> jsnum \<Rightarrow> jsnum" where
  "js_min x y = (if x = NaN \<or> y = NaN then NaN else if js_lt y x then y else x)"

text \<open>\<open>Math.round\<close> rounds to the nearest integer, a half towards +\<infinity>.\<close>

fun js_round :: "jsnum \<Rightarrow> jsnum" where
  "js_round (Fin a) = Fin (of_int \<lfloor>a + 1 / 2\<rfloor>)"
| "js_round x = x"

fun js_ceil :: "jsnum \<Rightarrow> jsnum" where
  "js_ceil (Fin a) = Fin (of_int \<lceil>a\<rceil>)"
| "js_ceil x = x"

fun js_floor :: "jsnum \<Rightarrow> jsnum" where
  "js_floor (Fin a) = Fin (of_int \<lfloor>a\<rfloor>)"
| "js_floor x = x"

section \<open>Rounding to doubles\<close>

text \<open>\<open>pow2 e\<close> is \<open>2\<close> to the power \<open>e\<close>, for any integer \<open>e\<close>.\<close>

definition pow2 :: "int \<Rightarrow> rat" where
  "pow2 e = (if 0 \<le> e then 2 ^ nat e else 1 / 2 ^ nat (- e))"

text \<open>
  \<open>binade x\<close> is the exponent \<open>e\<close> with \<open>pow2 e \<le> |x| < pow2 (e + 1)\<close>, for \<open>x \<noteq> 0\<close>
  (lemma \<open>binade_bounds\<close>): the integer part of the binary logarithm of \<open>|x|\<close>.
\<close>

definition binade :: "rat \<Rightarrow> int" where
  "binade x =
     (let a = \<bar>x\<bar>
      in if 1 \<le> a then bitlen \<lfloor>a\<rfloor> - 1 else - bitlen (\<lceil>1 / a\<rceil> - 1))"

text \<open>Rounding to the nearest integer, a tie to the even one.\<close>

definition round_half_even :: "rat \<Rightarrow> int" where
  "round_half_even y =
     (let f = \<lfloor>y\<rfloor>; d = y - of_int f
      in if d < 1 / 2 then f else if 1 / 2 < d then f + 1
         else if even f then f else f + 1)"

text \<open>
  The double nearest to a rational (binary64, round to nearest, ties to even). A
  double has 53 significant bits, so the doubles of the binade \<open>e\<close> are the multiples
  of \<open>pow2 (e - 52)\<close>; below the binade \<open>-1022\<close> the spacing stays \<open>pow2 (-1074)\<close>
  (subnormal numbers); a rounded value that reaches \<open>pow2 1024\<close> is infinite. This is
  also the value of a number literal and of \<open>parseFloat\<close>.
\<close>

definition to_double :: "rat \<Rightarrow> jsnum" where
  "to_double x =
     (if x = 0 then Fin 0
      else
        (let e = max (binade x) (- 1022);
             ulp = pow2 (e - 52);
             r = of_int (round_half_even (x / ulp)) * ulp
         in if r \<noteq> 0 \<and> 1024 \<le> binade r then (if 0 < x then PInf else NInf)
            else Fin r))"

fun js_rnd :: "jsnum \<Rightarrow> jsnum" where
  "js_rnd (Fin a) = to_double a"
| "js_rnd x = x"

text \<open>The four operators on doubles: the exact result, rounded.\<close>

definition d_add :: "jsnum \<Rightarrow> jsnum \<Rightarrow> jsnum" where
  "d_add x y = js_rnd (js_add x y)"

definition d_sub :: "jsnum \<Rightarrow> jsnum \<Rightarrow> jsnum" where
  "d_sub x y = js_rnd (js_sub x y)"

definition d_mul :: "jsnum \<Rightarrow> jsnum \<Rightarrow> jsnum" where
  "d_mul x y = js_rnd (js_mul x y)"

definition d_div :: "jsnum \<Rightarrow> jsnum \<Rightarrow> jsnum" where
  "d_div x y = js_rnd (js_div x y)"

section \<open>The funding scheme registry\<close>

datatype js_error = TypeError

text \<open>A thrown error ends the computation: the rest runs on a returned value only.\<close>

definition on_value :: "'e + 'a \<Rightarrow> ('a \<Rightarrow> 'e + 'b) \<Rightarrow> 'e + 'b" where
  "on_value r f = (case r of Inl e \<Rightarrow> Inl e | Inr v \<Rightarrow> f v)"

record funding_scheme =
  name :: string
  description :: string
  hoursPerYear :: jsnum
  weeksTermTime :: jsnum
  ageMin :: jsnum
  ageMax :: jsnum
  color :: string

definition universal_15 :: funding_scheme where
  "universal_15 =
     \<lparr>name = ''15 Hours Universal'', description = ''All 3-4 year olds'',
      hoursPerYear = Fin 570, weeksTermTime = Fin 38,
      ageMin = Fin 3, ageMax = Fin 4, color = ''#3B82F6''\<rparr>"

definition eligible_2yr :: funding_scheme where
  "eligible_2yr =
     \<lparr>name = ''15 Hours (Eligible 2yr)'', description = ''Eligible 2 year olds'',
      hoursPerYear = Fin 570, weeksTermTime = Fin 38,
      ageMin = Fin 2, ageMax = Fin 2, color = ''#8B5CF6''\<rparr>"

definition extended_30 :: funding_scheme where
  "extended_30 =
     \<lparr>name = ''30 Hours Extended'', description = ''Working parents 3-4yr olds'',
      hoursPerYear = Fin 1140, weeksTermTime = Fin 38,
      ageMin = Fin 3, ageMax = Fin 4, color = ''#10B981''\<rparr>"

definition expanded_under2 :: funding_scheme where
  "expanded_under2 =
     \<lparr>name = ''15 Hours Expanded'', description = ''Working parents 9mo-2yr'',
      hoursPerYear = Fin 570, weeksTermTime = Fin 38,
      ageMin = Fin (3 / 4), ageMax = Fin 2, color = ''#F59E0B''\<rparr>"

text \<open>
  \<open>FUNDING_SCHEMES\<close> is an object literal read with \<open>FUNDING_SCHEMES[key]\<close>. The read
  gives the scheme for the four own keys, a member of \<open>Object.prototype\<close> for the keys
  every object inherits, and \<open>undefined\<close> for every other key.
\<close>

datatype registry_value = Undefined | SchemeObj funding_scheme | Inherited

definition scheme_ids :: "string list" where
  "scheme_ids = [''universal_15'', ''eligible_2yr'', ''extended_30'', ''expanded_under2'']"

definition object_prototype_keys :: "string list" where
  "object_prototype_keys =
     [''constructor'', ''hasOwnProperty'', ''isPrototypeOf'', ''propertyIsEnumerable'',
      ''toLocaleString'', ''toString'', ''valueOf'', ''__proto__'',
      ''__defineGetter__'', ''__defineSetter__'', ''__lookupGetter__'',
      ''__lookupSetter__'']"

definition FUNDING_SCHEMES :: "string \<Rightarrow> registry_value" where
  "FUNDING_SCHEMES key =
     (if key = ''universal_15'' then SchemeObj universal_15
      else if key = ''eligible_2yr'' then SchemeObj eligible_2yr
      else if key = ''extended_30'' then SchemeObj extended_30
      else if key = ''expanded_under2'' then SchemeObj expanded_under2
      else if key \<in> set object_prototype_keys then Inherited
      else Undefined)"

text \<open>
  The property reads \<open>v.hoursPerYear\<close> and \<open>v.weeksTermTime\<close>, as operands of
  arithmetic. On \<open>undefined\<close> the read throws a TypeError; on an inherited member the
  property is missing, and the missing value is \<open>NaN\<close> in arithmetic.
\<close>

fun get_hoursPerYear :: "registry_value \<Rightarrow> js_error + jsnum" where
  "get_hoursPerYear Undefined = Inl TypeError"
| "get_hoursPerYear (SchemeObj s) = Inr (hoursPerYear s)"
| "get_hoursPerYear Inherited = Inr NaN"

fun get_weeksTermTime :: "registry_value \<Rightarrow> js_error + jsnum" where
  "get_weeksTermTime Undefined = Inl TypeError"
| "get_weeksTermTime (SchemeObj s) = Inr (weeksTermTime s)"
| "get_weeksTermTime Inherited = Inr NaN"

section \<open>Helper functions\<close>

text \<open>
  \<open>calculateFundedWeeklyHours(scheme, stretched, operatingWeeks = 51)\<close>: the third
  argument is \<open>None\<close> when the caller leaves it out, and the default applies.
\<close>

definition calculateFundedWeeklyHours ::
  "string \<Rightarrow> bool \<Rightarrow> jsnum option \<Rightarrow> js_error + jsnum" where
  "calculateFundedWeeklyHours scheme stretched operatingWeeks_arg =
     (let operatingWeeks = (case operatingWeeks_arg of None \<Rightarrow> Fin 51 | Some w \<Rightarrow> w);
          funding = FUNDING_SCHEMES scheme
      in if stretched then
           on_value (get_hoursPerYear funding) (\<lambda>h.
             Inr (js_div (js_round (js_mul (js_div h operatingWeeks) (Fin 100))) (Fin 100)))
         else
           on_value (get_hoursPerYear funding) (\<lambda>h.
           on_value (get_weeksTermTime funding) (\<lambda>w.
             Inr (js_div (js_round (js_mul (js_div h w) (Fin 100))) (Fin 100)))))"

text \<open>
  \<open>getWeeklyHours\<close>: \<open>Object.values(pattern).reduce((sum, hours) => sum + hours, 0)\<close>.
  A weekly pattern is an object with the keys \<open>mon\<close> to \<open>fri\<close>, kept here as the
  list of its entries in insertion order.
\<close>

type_synonym weekly_pattern = "(string \<times> jsnum) list"

definition getWeeklyHours :: "weekly_pattern \<Rightarrow> jsnum" where
  "getWeeklyHours pattern = foldl (\<lambda>sum hours. js_add sum hours) (Fin 0) (map snd pattern)"

text \<open>
  \<open>getCurrentTermWeek\<close> reads the clock; \<open>now\<close> is the time of \<open>new Date()\<close> in
  milliseconds since the epoch. The term starts at \<open>new Date('2025-01-06')\<close>, which is
  midnight UTC of that day.
\<close>

definition termStart :: int where
  "termStart = 1736121600000"

definition getCurrentTermWeek :: "int \<Rightarrow> jsnum" where
  "getCurrentTermWeek now =
     (let weeksDiff =
            js_floor (js_div (js_sub (Fin (of_int now)) (Fin (of_int termStart)))
                             (Fin (7 * 24 * 60 * 60 * 1000)))
      in js_max (Fin 1) (js_min (js_add weeksDiff (Fin 1)) (Fin 38)))"

section \<open>The state of the component\<close>

record child_record =
  child_id :: jsnum
  child_name :: string
  dob :: string
  entitlement :: string
  weeklyPattern :: weekly_pattern
  hoursUsed :: jsnum
  stretchedOption :: bool

record provider_settings =
  hourlyRate :: jsnum
  operatingWeeks :: jsnum
  mealCharge :: jsnum
  consumablesCharge :: jsnum

text \<open>\<open>childId\<close> is \<open>null\<close> (here \<open>None\<close>) or the number that \<open>parseInt\<close> returned.\<close>

record quotation_request =
  childId :: "jsnum option"
  weeksToQuote :: jsnum
  includeMeals :: bool
  mealsPerWeek :: jsnum
  includeConsumables :: bool

definition SAMPLE_CHILDREN :: "child_record list" where
  "SAMPLE_CHILDREN =
     [\<lparr>child_id = Fin 1, child_name = ''Emma Thompson'', dob = ''2022-03-15'',
       entitlement = ''extended_30'',
       weeklyPattern = [(''mon'', Fin 6), (''tue'', Fin 6), (''wed'', Fin 6),
                        (''thu'', Fin 6), (''fri'', Fin 6)],
       hoursUsed = Fin 456, stretchedOption = False\<rparr>,
      \<lparr>child_id = Fin 2, child_name = ''Oliver Smith'', dob = ''2023-06-20'',
       entitlement = ''eligible_2yr'',
       weeklyPattern = [(''mon'', Fin 5), (''tue'', Fin 5), (''wed'', Fin 5),
                        (''thu'', Fin 0), (''fri'', Fin 0)],
       hoursUsed = Fin 180, stretchedOption = True\<rparr>,
      \<lparr>child_id = Fin 3, child_name = ''Sophia Williams'', dob = ''2024-01-10'',
       entitlement = ''expanded_under2'',
       weeklyPattern = [(''mon'', Fin 4), (''tue'', Fin 4), (''wed'', Fin 4),
                        (''thu'', Fin 4), (''fri'', Fin 0)],
       hoursUsed = Fin 96, stretchedOption = False\<rparr>]"

definition initial_providerSettings :: provider_settings where
  "initial_providerSettings =
     \<lparr>hourlyRate = Fin (15 / 2), operatingWeeks = Fin 51,
      mealCharge = Fin (7 / 2), consumablesCharge = Fin (3 / 2)\<rparr>"

definition initial_quotation :: quotation_request where
  "initial_quotation =
     \<lparr>childId = None, weeksToQuote = Fin 4, includeMeals = True,
      mealsPerWeek = Fin 5, includeConsumables = True\<rparr>"

section \<open>Summary statistics\<close>

record summary_record =
  totalChildren :: jsnum
  totalFundedHours :: jsnum
  totalUsedHours :: jsnum
  totalRemainingHours :: jsnum
  averageUtilisation :: jsnum

text \<open>
  The \<open>forEach\<close> of \<open>summary\<close>, on the three running totals
  (funded, used, remaining), every \<open>+=\<close> and \<open>-\<close> rounded as a double. A child whose
  scheme is \<open>undefined\<close> throws.
\<close>

fun summary_loop ::
  "child_record list \<Rightarrow> jsnum \<times> jsnum \<times> jsnum \<Rightarrow> js_error + (jsnum \<times> jsnum \<times> jsnum)" where
  "summary_loop [] totals = Inr totals"
| "summary_loop (c # cs) (funded, used, remaining) =
     on_value (get_hoursPerYear (FUNDING_SCHEMES (entitlement c))) (\<lambda>h.
       summary_loop cs
         (d_add funded h,
          d_add used (hoursUsed c),
          d_add remaining (d_sub h (hoursUsed c))))"

definition summary :: "child_record list \<Rightarrow> js_error + summary_record" where
  "summary children =
     on_value (summary_loop children (Fin 0, Fin 0, Fin 0)) (\<lambda>(funded, used, remaining).
       Inr \<lparr>totalChildren = Fin (of_nat (length children)),
            totalFundedHours = funded,
            totalUsedHours = used,
            totalRemainingHours = remaining,
            averageUtilisation =
              (if js_gt funded (Fin 0)
               then js_round (d_mul (d_div used funded) (Fin 100))
               else Fin 0)\<rparr>)"

section \<open>Optimisation suggestions\<close>

text \<open>
  A template literal is kept as the list of its pieces: the literal text, a number
  interpolated as it is, and a number interpolated through \<open>toFixed(d)\<close>.
\<close>

datatype piece = Txt string | Num jsnum | Fixed nat jsnum

record suggestion =
  stype :: string
  schild :: string
  title :: string
  message :: "piece list"
  recommendation :: "piece list"

definition optimise_child ::
  "jsnum \<Rightarrow> provider_settings \<Rightarrow> child_record \<Rightarrow> js_error + suggestion list" where
  "optimise_child weeksRemaining providerSettings c =
     (let scheme = FUNDING_SCHEMES (entitlement c);
          weeklyBooked = getWeeklyHours (weeklyPattern c)
      in on_value (calculateFundedWeeklyHours (entitlement c) (stretchedOption c)
                     (Some (operatingWeeks providerSettings))) (\<lambda>fundedWeekly.
         on_value (get_hoursPerYear scheme) (\<lambda>hpy.
         (let projectedUsage = js_add (hoursUsed c) (js_mul weeklyBooked weeksRemaining);
              under =
                (if js_lt projectedUsage (js_mul hpy (Fin (85 / 100))) then
                   (let shortfall = js_sub hpy projectedUsage
                    in [\<lparr>stype = ''warning'', schild = child_name c,
                          title = ''Under-utilisation projected'',
                          message =
                            [Txt (child_name c), Txt '' is on track to use only '',
                             Num (js_round projectedUsage), Txt '' of '', Num hpy,
                             Txt '' funded hours ('', Num (js_round shortfall),
                             Txt '' hours unused).''],
                          recommendation =
                            [Txt ''Consider increasing weekly hours by '',
                             Num (js_ceil (js_div shortfall weeksRemaining)),
                             Txt '' hours to maximise funding.'']\<rparr>])
                 else []);
              over =
                (if js_gt weeklyBooked (js_add fundedWeekly (Fin 2)) then
                   [\<lparr>stype = ''info'', schild = child_name c,
                     title = ''Additional hours being used'',
                     message =
                       [Txt (child_name c), Txt '' is booked for '', Num weeklyBooked,
                        Txt ''hrs/week but only '', Fixed 1 fundedWeekly,
                        Txt ''hrs/week are funded.''],
                     recommendation =
                       [Txt ''Parent will be charged for '',
                        Fixed 1 (js_sub weeklyBooked fundedWeekly),
                        Txt '' additional hours per week.'']\<rparr>]
                 else [])
          in if \<not> stretchedOption c \<and> js_gt weeklyBooked fundedWeekly then
               on_value (calculateFundedWeeklyHours (entitlement c) True
                           (Some (operatingWeeks providerSettings))) (\<lambda>stretchedWeekly.
                 Inr (under @ over @
                   (if js_ge stretchedWeekly (js_mul weeklyBooked (Fin (9 / 10))) then
                      [\<lparr>stype = ''success'', schild = child_name c,
                        title = ''Stretching recommended'',
                        message =
                          [Txt ''Switching '', Txt (child_name c),
                           Txt '' to stretched funding would provide '',
                           Fixed 1 stretchedWeekly, Txt ''hrs/week over '',
                           Num (operatingWeeks providerSettings), Txt '' weeks.''],
                        recommendation =
                          [Txt ''This could reduce parent charges while maintaining the same booking pattern.'']\<rparr>]
                    else [])))
             else Inr (under @ over)))))"

text \<open>The \<open>forEach\<close> of \<open>optimisations\<close>: each child pushes its suggestions.\<close>

fun optimise_loop ::
  "jsnum \<Rightarrow> provider_settings \<Rightarrow> child_record list \<Rightarrow> suggestion list
     \<Rightarrow> js_error + suggestion list" where
  "optimise_loop weeksRemaining providerSettings [] suggestions = Inr suggestions"
| "optimise_loop weeksRemaining providerSettings (c # cs) suggestions =
     on_value (optimise_child weeksRemaining providerSettings c) (\<lambda>new.
       optimise_loop weeksRemaining providerSettings cs (suggestions @ new))"

definition optimisations ::
  "int \<Rightarrow> child_record list \<Rightarrow> provider_settings \<Rightarrow> js_error + suggestion list" where
  "optimisations now children providerSettings =
     (let currentWeek = getCurrentTermWeek now;
          weeksRemaining = js_sub (Fin 38) currentWeek
      in optimise_loop weeksRemaining providerSettings children [])"

section \<open>Recording hours and quoting\<close>

text \<open>\<open>updateChildHours\<close> replaces the roster; the new roster is the result.\<close>

definition updateChildHours :: "jsnum \<Rightarrow> jsnum \<Rightarrow> child_record list \<Rightarrow> child_record list" where
  "updateChildHours i hours children =
     map (\<lambda>c. if js_strict_eq (child_id c) i
               then c\<lparr>hoursUsed := js_max (Fin 0) hours\<rparr> else c) children"

record quote_record =
  child :: child_record
  weeklyBooked :: jsnum
  fundedWeekly :: jsnum
  chargeableHours :: jsnum
  weeklySessionCost :: jsnum
  weeklyFundedValue :: jsnum
  weeklyChargeableHours :: jsnum
  weeklyMeals :: jsnum
  weeklyConsumables :: jsnum
  weeklyTotal :: jsnum
  periodTotal :: jsnum
  weeks :: jsnum

text \<open>
  \<open>generateQuotation\<close> reads the roster, the settings and the quotation form;
  \<open>null\<close> is \<open>None\<close>. \<open>!quotation.childId\<close> holds for \<open>null\<close>, \<open>0\<close> and \<open>NaN\<close>.
\<close>

definition generateQuotation ::
  "child_record list \<Rightarrow> provider_settings \<Rightarrow> quotation_request
     \<Rightarrow> js_error + quote_record option" where
  "generateQuotation children providerSettings quotation =
     (case childId quotation of
        None \<Rightarrow> Inr None
      | Some cid \<Rightarrow>
          if \<not> js_truthy cid then Inr None
          else
            (case find (\<lambda>c. js_strict_eq (child_id c) cid) children of
               None \<Rightarrow> Inr None
             | Some c \<Rightarrow>
                 (let weeklyBooked = getWeeklyHours (weeklyPattern c)
                  in on_value (calculateFundedWeeklyHours (entitlement c) (stretchedOption c)
                                 (Some (operatingWeeks providerSettings))) (\<lambda>fundedWeekly.
                     (let chargeableHours =
                            js_max (Fin 0) (js_sub weeklyBooked fundedWeekly);
                          weeklySessionCost =
                            js_mul weeklyBooked (hourlyRate providerSettings);
                          weeklyFundedValue =
                            js_mul (js_min weeklyBooked fundedWeekly)
                                   (hourlyRate providerSettings);
                          weeklyChargeableHours =
                            js_mul chargeableHours (hourlyRate providerSettings);
                          weeklyMeals =
                            (if includeMeals quotation
                             then js_mul (mealsPerWeek quotation)
                                         (mealCharge providerSettings)
                             else Fin 0);
                          weeklyConsumables =
                            (if includeConsumables quotation
                             then js_mul (consumablesCharge providerSettings) (Fin 5)
                             else Fin 0);
                          weeklyTotal =
                            js_add (js_add weeklyChargeableHours weeklyMeals)
                                   weeklyConsumables;
                          periodTotal = js_mul weeklyTotal (weeksToQuote quotation)
                      in Inr (Some
                           \<lparr>child = c,
                            weeklyBooked = weeklyBooked,
                            fundedWeekly = fundedWeekly,
                            chargeableHours = chargeableHours,
                            weeklySessionCost = weeklySessionCost,
                            weeklyFundedValue = weeklyFundedValue,
                            weeklyChargeableHours = weeklyChargeableHours,
                            weeklyMeals = weeklyMeals,
                            weeklyConsumables = weeklyConsumables,
                            weeklyTotal = weeklyTotal,
                            periodTotal = periodTotal,
                            weeks = weeksToQuote quotation\<rparr>))))))"

section \<open>The rounding of the specification\<close>

text \<open>
  The specification's \<open>round2\<close>: round to two decimal places, half up, on the value
  scaled by 100. It is written from the specification's words, to be compared with
  what \<open>calculateFundedWeeklyHours\<close> computes.
\<close>

definition spec_round2 :: "rat \<Rightarrow> rat" where
  "spec_round2 x = of_int \<lfloor>x * 100 + 1 / 2\<rfloor> / 100"

section \<open>Basic facts\<close>

lemma floor_rat_numeral [simp]:
  "\<lfloor>(numeral a :: rat) / numeral b\<rfloor> = numeral a div numeral b"
  using floor_divide_of_int_eq [where ?'a = rat, of "numeral a" "numeral b"] by simp

lemma on_value_Inr [simp]: "on_value (Inr v) f = f v"
  by (simp add: on_value_def)

lemma on_value_Inl [simp]: "on_value (Inl e) f = Inl e"
  by (simp add: on_value_def)

lemma js_sub_Fin [simp]: "js_sub (Fin a) (Fin b) = Fin (a - b)"
  by (simp add: js_sub_def)

lemma js_max_Fin [simp]: "js_max (Fin a) (Fin b) = Fin (max a b)"
  by (simp add: js_max_def max_def)

lemma js_min_Fin [simp]: "js_min (Fin a) (Fin b) = Fin (min a b)"
  by (simp add: js_min_def min_def)

lemma js_le_Fin [simp]: "js_le (Fin a) (Fin b) \<longleftrightarrow> a \<le> b"
  by (auto simp: js_le_def)

lemma js_ge_Fin [simp]: "js_ge (Fin a) (Fin b) \<longleftrightarrow> b \<le> a"
  by (simp add: js_ge_def)

lemma js_gt_Fin [simp]: "js_gt (Fin a) (Fin b) \<longleftrightarrow> b < a"
  by (simp add: js_gt_def)

lemma js_max_zero_not_negative: "\<not> js_lt (js_max (Fin 0) y) (Fin 0)"
  by (cases y) (simp_all add: js_max_def)

lemma js_max_zero_funded_exceeds:
  assumes "js_gt f b"
  shows "js_max (Fin 0) (js_sub b f) = Fin 0"
  using assms by (cases b; cases f) (simp_all add: js_gt_def js_sub_def js_max_def)

lemma js_max_zero_cases:
  "(hours \<noteq> NaN \<longrightarrow> js_ge (js_max (Fin 0) hours) (Fin 0)) \<and>
   (js_lt hours (Fin 0) \<longrightarrow> js_max (Fin 0) hours = Fin 0) \<and>
   (js_ge hours (Fin 0) \<longrightarrow> js_max (Fin 0) hours = hours)"
  by (cases hours) (auto simp: js_max_def js_ge_def js_le_def)

lemma spec_round2_mono: "x \<le> y \<Longrightarrow> spec_round2 x \<le> spec_round2 y"
  unfolding spec_round2_def
  by (intro divide_right_mono of_int_le_iff[THEN iffD2] floor_mono add_right_mono mult_right_mono) simp_all

subsection \<open>The registry\<close>

lemma registry_cases:
  assumes "FUNDING_SCHEMES sid = SchemeObj s"
  shows "(sid = ''universal_15'' \<and> s = universal_15) \<or>
         (sid = ''eligible_2yr'' \<and> s = eligible_2yr) \<or>
         (sid = ''extended_30'' \<and> s = extended_30) \<or>
         (sid = ''expanded_under2'' \<and> s = expanded_under2)"
  using assms by (simp add: FUNDING_SCHEMES_def split: if_splits)

lemma registry_scheme_ids:
  "sid \<in> set scheme_ids \<longleftrightarrow> (\<exists>s. FUNDING_SCHEMES sid = SchemeObj s)"
  by (auto simp: FUNDING_SCHEMES_def scheme_ids_def)

lemma registry_constants:
  assumes "FUNDING_SCHEMES sid = SchemeObj s"
  shows "weeksTermTime s = Fin 38 \<and> (hoursPerYear s = Fin 570 \<or> hoursPerYear s = Fin 1140)"
  using registry_cases [OF assms]
  by (auto simp: universal_15_def eligible_2yr_def extended_30_def expanded_under2_def)

lemma registry_Undefined_throws:
  assumes "FUNDING_SCHEMES sid = Undefined"
  shows "calculateFundedWeeklyHours sid st W = Inl TypeError"
  using assms by (simp add: calculateFundedWeeklyHours_def)

lemma registry_scheme_returns:
  assumes "FUNDING_SCHEMES sid = SchemeObj s"
  shows "\<exists>v. calculateFundedWeeklyHours sid st W = Inr v"
  using assms by (simp add: calculateFundedWeeklyHours_def Let_def)

lemma funded_term_time:
  assumes "FUNDING_SCHEMES sid = SchemeObj s" and "hoursPerYear s = Fin h"
  shows "calculateFundedWeeklyHours sid False W = Inr (Fin (spec_round2 (h / 38)))"
  using assms registry_constants [OF assms(1)]
  by (simp add: calculateFundedWeeklyHours_def spec_round2_def)

lemma funded_stretched:
  assumes "FUNDING_SCHEMES sid = SchemeObj s" and "hoursPerYear s = Fin h" and "W \<noteq> 0"
  shows "calculateFundedWeeklyHours sid True (Some (Fin W)) = Inr (Fin (spec_round2 (h / W)))"
  using assms
  by (simp add: calculateFundedWeeklyHours_def spec_round2_def)

subsection \<open>The term week\<close>

lemma getCurrentTermWeek_Fin:
  "getCurrentTermWeek now =
     Fin (max 1 (min (of_int \<lfloor>(of_int now - of_int termStart) / (604800000::rat)\<rfloor> + 1) 38))"
  by (simp add: getCurrentTermWeek_def)

text \<open>
  From 22 September 2025 on, 37 weeks after the start of the term, the term week is 38
  and no week remains.
\<close>

lemma final_term_week:
  assumes "termStart + 37 * 604800000 \<le> now"
  shows "getCurrentTermWeek now = Fin 38"
proof -
  define x :: rat where "x = (of_int now - of_int termStart) / 604800000"
  have "(of_int (termStart + 37 * 604800000) :: rat) \<le> of_int now"
    using assms by (simp only: of_int_le_iff)
  then have "37 \<le> x"
    by (simp add: x_def)
  then have "(37::int) \<le> \<lfloor>x\<rfloor>"
    by (simp add: le_floor_iff)
  then have "(38::rat) \<le> of_int \<lfloor>x\<rfloor> + 1"
    by linarith
  then have "max 1 (min (of_int \<lfloor>x\<rfloor> + 1) (38::rat)) = 38"
    by simp
  then show ?thesis
    unfolding getCurrentTermWeek_Fin x_def by simp
qed

subsection \<open>Rounding to doubles\<close>

lemma pow2_pos [simp]: "0 < pow2 e"
  by (simp add: pow2_def)

lemma binade_bounds:
  assumes "x \<noteq> 0"
  shows "pow2 (binade x) \<le> \<bar>x\<bar> \<and> \<bar>x\<bar> < pow2 (binade x + 1)"
proof (cases "1 \<le> \<bar>x\<bar>")
  case True
  define m where "m = \<lfloor>\<bar>x\<bar>\<rfloor>"
  have m: "0 < m" using True by (simp add: m_def)
  have b: "binade x = bitlen m - 1"
    using True by (simp add: binade_def m_def)
  from bitlen_bounds [OF m] have lo: "2 ^ nat (bitlen m - 1) \<le> m" and hi: "m < 2 ^ nat (bitlen m)"
    by simp_all
  have ge1: "1 \<le> bitlen m" using m by (simp add: bitlen_alt_def)
  have "(of_int (2 ^ nat (bitlen m - 1)) :: rat) \<le> of_int m"
    using lo by (simp only: of_int_le_iff)
  also have "\<dots> \<le> \<bar>x\<bar>" by (simp add: m_def)
  finally have 1: "pow2 (bitlen m - 1) \<le> \<bar>x\<bar>"
    using ge1 by (simp add: pow2_def)
  have "m + 1 \<le> 2 ^ nat (bitlen m)" using hi by simp
  then have "(of_int (m + 1) :: rat) \<le> of_int (2 ^ nat (bitlen m))"
    by (simp only: of_int_le_iff)
  moreover have "\<bar>x\<bar> < of_int (m + 1)"
    unfolding m_def by linarith
  ultimately have 2: "\<bar>x\<bar> < pow2 (bitlen m)"
    using ge1 by (simp add: pow2_def)
  from 1 2 b show ?thesis by simp
next
  case False
  define y where "y = 1 / \<bar>x\<bar>"
  define m where "m = \<lceil>y\<rceil>"
  define k where "k = bitlen (m - 1)"
  have xpos: "0 < \<bar>x\<bar>" using assms by simp
  have y1: "1 < y" using False xpos by (simp add: y_def)
  have m2: "2 \<le> m" unfolding m_def using y1 by linarith
  then have m1: "0 < m - 1" by simp
  have b: "binade x = - k"
    using False by (simp add: binade_def k_def m_def y_def)
  from bitlen_bounds [OF m1] have lo: "2 ^ nat (k - 1) \<le> m - 1" and hi: "m - 1 < 2 ^ nat k"
    by (simp_all add: k_def)
  have k1: "1 \<le> k" using m1 by (simp add: k_def bitlen_alt_def)
  have "m \<le> 2 ^ nat k" using hi by simp
  then have mk: "(of_int m :: rat) \<le> of_int (2 ^ nat k)" by (simp only: of_int_le_iff)
  have "y \<le> of_int m" by (simp add: m_def)
  also note mk
  also have "(of_int (2 ^ nat k) :: rat) = 2 ^ nat k" by simp
  finally have yle: "y \<le> 2 ^ nat k" .
  have "(2 ^ nat (k - 1) :: rat) = of_int (2 ^ nat (k - 1))" by simp
  also have "\<dots> \<le> of_int (m - 1)"
    using lo by (simp only: of_int_le_iff)
  also have "\<dots> < y" unfolding m_def by linarith
  finally have ygt: "2 ^ nat (k - 1) < y" .
  have 1: "pow2 (- k) \<le> \<bar>x\<bar>"
  proof -
    have "1 / 2 ^ nat k \<le> 1 / y"
      using yle y1 by (simp add: frac_le)
    also have "1 / y = \<bar>x\<bar>" by (simp add: y_def)
    finally show ?thesis using k1 by (simp add: pow2_def)
  qed
  have 2: "\<bar>x\<bar> < pow2 (- k + 1)"
  proof -
    have "1 / y < 1 / 2 ^ nat (k - 1)"
      using ygt by (simp add: frac_less2)
    moreover have "1 / y = \<bar>x\<bar>" by (simp add: y_def)
    moreover have "pow2 (- k + 1) = 1 / 2 ^ nat (k - 1)"
      using k1 by (cases "k = 1") (auto simp: pow2_def)
    ultimately show ?thesis by simp
  qed
  from 1 2 b show ?thesis by simp
qed

lemma round_half_even_int [simp]: "round_half_even (of_int n) = n"
  by (simp add: round_half_even_def)

lemma round_half_even_close: "\<bar>of_int (round_half_even y) - y\<bar> \<le> 1 / 2"
proof -
  have "of_int \<lfloor>y\<rfloor> \<le> y" "y < of_int \<lfloor>y\<rfloor> + 1"
    by linarith+
  then show ?thesis
    by (auto simp: round_half_even_def Let_def abs_le_iff)
qed


text \<open>What \<open>to_double\<close> returns is within half a spacing of its argument.\<close>

lemma to_double_nearest:
  assumes "to_double x = Fin r"
  shows "\<bar>r - x\<bar> \<le> pow2 (max (binade x) (- 1022) - 52) / 2"
proof (cases "x = 0")
  case True
  with assms show ?thesis by (simp add: to_double_def less_imp_le)
next
  case False
  define ulp where "ulp = pow2 (max (binade x) (- 1022) - 52)"
  have pos: "0 < ulp" by (simp add: ulp_def)
  from assms False have r: "r = of_int (round_half_even (x / ulp)) * ulp"
    by (simp add: to_double_def Let_def ulp_def split: if_splits)
  have "r - x = (of_int (round_half_even (x / ulp)) - x / ulp) * ulp"
    using pos by (simp add: r algebra_simps)
  then have "\<bar>r - x\<bar> = \<bar>of_int (round_half_even (x / ulp)) - x / ulp\<bar> * ulp"
    using pos by (simp add: abs_mult)
  also have "\<dots> \<le> 1 / 2 * ulp"
    using round_half_even_close [of "x / ulp"] pos by (intro mult_right_mono) simp_all
  finally show ?thesis by (simp add: ulp_def)
qed

lemma binade_int:
  assumes "n \<noteq> 0"
  shows "binade (of_int n) = bitlen \<bar>n\<bar> - 1"
proof -
  have "1 \<le> \<bar>n\<bar>" using assms by simp
  then have "(of_int 1 :: rat) \<le> of_int \<bar>n\<bar>" by (simp only: of_int_le_iff)
  then have "(1::rat) \<le> \<bar>of_int n\<bar>" by simp
  moreover have "\<lfloor>\<bar>of_int n :: rat\<bar>\<rfloor> = \<bar>n\<bar>"
    by (simp flip: of_int_abs)
  ultimately show ?thesis
    by (simp add: binade_def)
qed

lemma bitlen_le:
  assumes "0 < m" and "m < 2 ^ k"
  shows "bitlen m \<le> int k"
proof (rule ccontr)
  assume "\<not> bitlen m \<le> int k"
  then have "k \<le> nat (bitlen m - 1)" by simp
  then have "(2::int) ^ k \<le> 2 ^ nat (bitlen m - 1)"
    by (simp add: power_increasing)
  with bitlen_bounds [OF assms(1)] assms(2) show False by simp
qed

lemma to_double_int:
  assumes "\<bar>n\<bar> < 2 ^ 53"
  shows "to_double (of_int n) = Fin (of_int n)"
proof (cases "n = 0")
  case True
  then show ?thesis by (simp add: to_double_def)
next
  case False
  define e where "e = bitlen \<bar>n\<bar> - 1"
  have b: "binade (of_int n) = e"
    using False by (simp add: binade_int e_def)
  have pos: "0 < \<bar>n\<bar>" using False by simp
  have "1 \<le> bitlen \<bar>n\<bar>" using pos by (simp add: bitlen_alt_def)
  then have e0: "0 \<le> e" by (simp add: e_def)
  from bitlen_le [OF pos assms] have e52: "e \<le> 52" by (simp add: e_def)
  define k where "k = nat (52 - e)"
  have ulp: "pow2 (e - 52) = 1 / 2 ^ k"
    using e52 by (cases "e = 52") (auto simp: pow2_def k_def)
  have q: "(of_int n :: rat) / pow2 (e - 52) = of_int (n * 2 ^ k)"
    by (simp add: ulp)
  have r: "of_int (round_half_even (of_int n / pow2 (e - 52))) * pow2 (e - 52) = (of_int n :: rat)"
    unfolding q round_half_even_int by (simp add: ulp)
  have m: "max e (- 1022) = e" using e0 by simp
  show ?thesis
    using False e52 by (simp add: to_double_def Let_def b m r)
qed

lemma d_add_int:
  assumes "\<bar>a + b\<bar> < 2 ^ 53"
  shows "d_add (Fin (of_int a)) (Fin (of_int b)) = Fin (of_int (a + b))"
  using to_double_int [OF assms] by (simp add: d_add_def)

lemma d_sub_int:
  assumes "\<bar>a - b\<bar> < 2 ^ 53"
  shows "d_sub (Fin (of_int a)) (Fin (of_int b)) = Fin (of_int (a - b))"
  using to_double_int [OF assms] by (simp add: d_sub_def js_sub_def)


text \<open>Some doubles: 90.1, 128.3 and 0.575 are not representable, 0.75 is.\<close>

lemma to_double_examples:
  "to_double (901 / 10) = Fin (3170111925203763 / 35184372088832)"
  "to_double (1283 / 10) = Fin (2257077469498573 / 17592186044416)"
  "to_double (1311 / 2280) = Fin (2589569785738035 / 4503599627370496)"
  "to_double (3 / 4) = Fin (3 / 4)"
  by code_simp+

subsection \<open>The summary loop\<close>

lemma summary_loop_folds:
  assumes "summary_loop cs (f, u, r) = Inr (f', u', r')"
  shows "\<exists>hs. map (\<lambda>c. get_hoursPerYear (FUNDING_SCHEMES (entitlement c))) cs = map Inr hs \<and>
              f' = foldl d_add f hs \<and>
              u' = foldl d_add u (map hoursUsed cs) \<and>
              r' = foldl d_add r (map2 (\<lambda>h c. d_sub h (hoursUsed c)) hs cs)"
  using assms
proof (induction cs arbitrary: f u r)
  case Nil
  then show ?case by auto
next
  case (Cons c cs)
  from Cons.prems obtain h where
    h: "get_hoursPerYear (FUNDING_SCHEMES (entitlement c)) = Inr h"
    by (cases "get_hoursPerYear (FUNDING_SCHEMES (entitlement c))") simp_all
  with Cons.prems have
    "summary_loop cs (d_add f h, d_add u (hoursUsed c), d_add r (d_sub h (hoursUsed c))) =
       Inr (f', u', r')"
    by simp
  from Cons.IH [OF this] obtain hs where
    hs: "map (\<lambda>c. get_hoursPerYear (FUNDING_SCHEMES (entitlement c))) cs = map Inr hs"
      "f' = foldl d_add (d_add f h) hs"
      "u' = foldl d_add (d_add u (hoursUsed c)) (map hoursUsed cs)"
      "r' = foldl d_add (d_add r (d_sub h (hoursUsed c)))
              (map2 (\<lambda>h c. d_sub h (hoursUsed c)) hs cs)"
    by blast
  show ?case
    by (rule exI [of _ "h # hs"]) (simp add: h hs)
qed

lemma summary_loop_total:
  assumes "\<forall>c \<in> set cs. entitlement c \<in> set scheme_ids"
  shows "\<exists>t. summary_loop cs acc = Inr t"
  using assms
proof (induction cs arbitrary: acc)
  case Nil
  show ?case by (cases acc) auto
next
  case (Cons c cs)
  obtain f u r where acc: "acc = (f, u, r)"
    using prod_cases3 by blast
  from Cons.prems obtain s where "FUNDING_SCHEMES (entitlement c) = SchemeObj s"
    by (auto simp: registry_scheme_ids)
  then have "summary_loop (c # cs) (f, u, r) =
     summary_loop cs (d_add f (hoursPerYear s), d_add u (hoursUsed c),
       d_add r (d_sub (hoursPerYear s) (hoursUsed c)))"
    by simp
  with Cons.IH Cons.prems acc show ?case
    by simp
qed

lemma summary_total:
  assumes "\<forall>c \<in> set children. entitlement c \<in> set scheme_ids"
  shows "\<exists>s. summary children = Inr s"
proof -
  from summary_loop_total [OF assms] obtain t where
    "summary_loop children (Fin 0, Fin 0, Fin 0) = Inr t"
    by blast
  then show ?thesis
    by (cases t) (simp add: summary_def)
qed

lemma summary_InrE:
  assumes "summary children = Inr s"
  obtains f u r where
    "summary_loop children (Fin 0, Fin 0, Fin 0) = Inr (f, u, r)" and
    "totalFundedHours s = f" and "totalUsedHours s = u" and "totalRemainingHours s = r" and
    "averageUtilisation s =
       (if js_gt f (Fin 0) then js_round (d_mul (d_div u f) (Fin 100)) else Fin 0)"
  using assms
  by (cases "summary_loop children (Fin 0, Fin 0, Fin 0)") (auto simp: summary_def)

lemma registry_hours_int:
  assumes "entitlement c \<in> set scheme_ids"
  shows "\<exists>h. get_hoursPerYear (FUNDING_SCHEMES (entitlement c)) = Inr (Fin (of_int h)) \<and>
             0 \<le> h \<and> h \<le> 1140"
proof -
  from assms obtain s where s: "FUNDING_SCHEMES (entitlement c) = SchemeObj s"
    by (auto simp: registry_scheme_ids)
  from registry_constants [OF s] have "hoursPerYear s = Fin (of_int 570) \<or> hoursPerYear s = Fin (of_int 1140)"
    by simp
  with s show ?thesis by auto
qed

lemma summary_loop_whole_hours:
  assumes "\<forall>c \<in> set cs. entitlement c \<in> set scheme_ids \<and>
             (\<exists>n. hoursUsed c = Fin (of_int n) \<and> 0 \<le> n \<and> n \<le> 1000000)"
    and "0 \<le> F" and "0 \<le> U"
    and "F + 1140 * int (length cs) \<le> 2 ^ 50"
    and "U + 1000000 * int (length cs) \<le> 2 ^ 50"
  shows "\<exists>F' U'. summary_loop cs (Fin (of_int F), Fin (of_int U), Fin (of_int (F - U))) =
                    Inr (Fin (of_int F'), Fin (of_int U'), Fin (of_int (F' - U'))) \<and>
                 0 \<le> F' \<and> F' \<le> 2 ^ 50 \<and> 0 \<le> U' \<and> U' \<le> 2 ^ 50"
  using assms
proof (induction cs arbitrary: F U)
  case Nil
  then show ?case by auto
next
  case (Cons c cs)
  from Cons.prems(1) obtain h where
    h: "get_hoursPerYear (FUNDING_SCHEMES (entitlement c)) = Inr (Fin (of_int h))"
      "0 \<le> h" "h \<le> 1140"
    using registry_hours_int [of c] by auto
  from Cons.prems(1) obtain n where
    n: "hoursUsed c = Fin (of_int n)" "0 \<le> n" "n \<le> 1000000"
    by auto
  have len: "0 \<le> int (length cs)" by simp
  have bF: "F + h \<le> 2 ^ 50" "F + h + 1140 * int (length cs) \<le> 2 ^ 50"
    using Cons.prems(4) h len by simp_all
  have bU: "U + n \<le> 2 ^ 50" "U + n + 1000000 * int (length cs) \<le> 2 ^ 50"
    using Cons.prems(5) n len by simp_all
  have big: "(2::int) ^ 50 < 2 ^ 53" by simp
  have 1: "d_add (Fin (of_int F)) (Fin (of_int h)) = Fin (of_int (F + h))"
    using Cons.prems(2) h bF big by (intro d_add_int) simp
  have 2: "d_add (Fin (of_int U)) (Fin (of_int n)) = Fin (of_int (U + n))"
    using Cons.prems(3) n bU big by (intro d_add_int) simp
  have 3: "d_sub (Fin (of_int h)) (Fin (of_int n)) = Fin (of_int (h - n))"
    using h n by (intro d_sub_int) simp
  have 4: "d_add (Fin (of_int (F - U))) (Fin (of_int (h - n))) =
             Fin (of_int ((F + h) - (U + n)))"
  proof -
    have "\<bar>(F - U) + (h - n)\<bar> < 2 ^ 53"
      using Cons.prems(2,3) h n bF bU big by simp
    from d_add_int [OF this] show ?thesis
      by (simp add: algebra_simps)
  qed
  have step: "summary_loop (c # cs) (Fin (of_int F), Fin (of_int U), Fin (of_int (F - U))) =
     summary_loop cs (Fin (of_int (F + h)), Fin (of_int (U + n)),
       Fin (of_int ((F + h) - (U + n))))"
    by (simp only: summary_loop.simps h n on_value_Inr 1 2 3 4)
  have "\<exists>F' U'. summary_loop cs (Fin (of_int (F + h)), Fin (of_int (U + n)),
                   Fin (of_int ((F + h) - (U + n)))) =
          Inr (Fin (of_int F'), Fin (of_int U'), Fin (of_int (F' - U'))) \<and>
          0 \<le> F' \<and> F' \<le> 2 ^ 50 \<and> 0 \<le> U' \<and> U' \<le> 2 ^ 50"
    using Cons.prems(1,2,3) h n bF bU by (intro Cons.IH) simp_all
  then show ?case
    unfolding step .
qed

lemma summary_whole_hours:
  assumes "\<forall>c \<in> set children. entitlement c \<in> set scheme_ids \<and>
             (\<exists>n. hoursUsed c = Fin (of_int n) \<and> 0 \<le> n \<and> n \<le> 1000000)"
    and "length children \<le> 1000000"
  shows "\<exists>s. summary children = Inr s \<and>
             totalRemainingHours s = js_sub (totalFundedHours s) (totalUsedHours s) \<and>
             totalRemainingHours s = d_sub (totalFundedHours s) (totalUsedHours s)"
proof -
  have len: "int (length children) \<le> 1000000" using assms(2) by simp
  have "\<exists>F' U'. summary_loop children (Fin (of_int 0), Fin (of_int 0), Fin (of_int (0 - 0))) =
          Inr (Fin (of_int F'), Fin (of_int U'), Fin (of_int (F' - U'))) \<and>
          0 \<le> F' \<and> F' \<le> 2 ^ 50 \<and> 0 \<le> U' \<and> U' \<le> 2 ^ 50"
    using assms(1) len by (intro summary_loop_whole_hours) simp_all
  then obtain F' U' where
    loop: "summary_loop children (Fin 0, Fin 0, Fin 0) =
             Inr (Fin (of_int F'), Fin (of_int U'), Fin (of_int (F' - U')))" and
    b: "0 \<le> F'" "F' \<le> 2 ^ 50" "0 \<le> U'" "U' \<le> 2 ^ 50"
    by auto
  have "\<bar>F' - U'\<bar> < 2 ^ 53" using b by simp
  from d_sub_int [OF this] have d: "d_sub (Fin (of_int F')) (Fin (of_int U')) = Fin (of_int (F' - U'))" .
  have e: "js_sub (Fin (of_int F')) (Fin (of_int U')) = Fin (of_int (F' - U'))"
    by simp
  show ?thesis
    by (simp only: summary_def loop on_value_Inr split_conv d e summary_record.simps
        sum.inject simp_thms ex_simps)
qed


text \<open>
  Two summaries in which the rounding shows: 1311 used hours of 2280 are 57 percent
  (\<open>1311 / 2280 * 100\<close> is \<open>57.49999999999999\<close> in doubles), and 19.95 used hours of
  570 are 3 percent (\<open>3.4999999999999996\<close>).
\<close>

lemma summary_utilisation_examples:
  "summary [(SAMPLE_CHILDREN ! 0)\<lparr>hoursUsed := Fin 1000\<rparr>,
            (SAMPLE_CHILDREN ! 1)\<lparr>hoursUsed := Fin 215\<rparr>,
            SAMPLE_CHILDREN ! 2] =
     Inr \<lparr>totalChildren = Fin 3, totalFundedHours = Fin 2280, totalUsedHours = Fin 1311,
          totalRemainingHours = Fin 969, averageUtilisation = Fin 57\<rparr>"
  "summary [(SAMPLE_CHILDREN ! 1)\<lparr>hoursUsed := to_double (1995 / 100)\<rparr>] =
     Inr \<lparr>totalChildren = Fin 1, totalFundedHours = Fin 570,
          totalUsedHours = Fin (5615425785377587 / 281474976710656),
          totalRemainingHours = Fin (2419145483432755 / 4398046511104),
          averageUtilisation = Fin 3\<rparr>"
  by code_simp+

subsection \<open>Quotations\<close>

lemma generateQuotation_none_selected:
  "childId quotation = None \<Longrightarrow> generateQuotation children providerSettings quotation = Inr None"
  by (simp add: generateQuotation_def)

lemma generateQuotation_falsy:
  "childId quotation = Some cid \<Longrightarrow> \<not> js_truthy cid \<Longrightarrow>
   generateQuotation children providerSettings quotation = Inr None"
  by (simp add: generateQuotation_def)

lemma generateQuotation_no_match:
  "childId quotation = Some cid \<Longrightarrow> \<forall>c \<in> set children. \<not> js_strict_eq (child_id c) cid \<Longrightarrow>
   generateQuotation children providerSettings quotation = Inr None"
  by (simp add: generateQuotation_def find_None_iff[THEN iffD2])

lemma generateQuotation_match:
  assumes "childId quotation = Some cid" and "js_truthy cid"
    and "find (\<lambda>c. js_strict_eq (child_id c) cid) children = Some c"
    and "entitlement c \<in> set scheme_ids"
  shows "\<exists>q. generateQuotation children providerSettings quotation = Inr (Some q) \<and> child q = c"
proof -
  from assms(4) obtain s where "FUNDING_SCHEMES (entitlement c) = SchemeObj s"
    by (auto simp: registry_scheme_ids)
  then obtain v where
    "calculateFundedWeeklyHours (entitlement c) (stretchedOption c)
       (Some (operatingWeeks providerSettings)) = Inr v"
    using registry_scheme_returns by blast
  with assms(1-3) show ?thesis
    by (simp add: generateQuotation_def Let_def)
qed

text \<open>What a returned quote holds, field by field.\<close>

lemma generateQuotation_SomeE:
  assumes "generateQuotation children providerSettings quotation = Inr (Some q)"
  obtains cid c fw where
    "childId quotation = Some cid" and "js_truthy cid" and
    "find (\<lambda>c. js_strict_eq (child_id c) cid) children = Some c" and
    "calculateFundedWeeklyHours (entitlement c) (stretchedOption c)
       (Some (operatingWeeks providerSettings)) = Inr fw" and
    "child q = c" and
    "weeklyBooked q = getWeeklyHours (weeklyPattern c)" and
    "fundedWeekly q = fw" and
    "chargeableHours q = js_max (Fin 0) (js_sub (weeklyBooked q) (fundedWeekly q))" and
    "weeklySessionCost q = js_mul (weeklyBooked q) (hourlyRate providerSettings)" and
    "weeklyFundedValue q =
       js_mul (js_min (weeklyBooked q) (fundedWeekly q)) (hourlyRate providerSettings)" and
    "weeklyChargeableHours q = js_mul (chargeableHours q) (hourlyRate providerSettings)" and
    "weeklyMeals q =
       (if includeMeals quotation
        then js_mul (mealsPerWeek quotation) (mealCharge providerSettings) else Fin 0)" and
    "weeklyConsumables q =
       (if includeConsumables quotation
        then js_mul (consumablesCharge providerSettings) (Fin 5) else Fin 0)" and
    "weeklyTotal q =
       js_add (js_add (weeklyChargeableHours q) (weeklyMeals q)) (weeklyConsumables q)" and
    "periodTotal q = js_mul (weeklyTotal q) (weeksToQuote quotation)" and
    "weeks q = weeksToQuote quotation"
proof -
  from assms obtain cid where cid: "childId quotation = Some cid"
    by (auto simp: generateQuotation_def split: option.splits)
  from assms cid have truthy: "js_truthy cid"
    by (auto simp: generateQuotation_def split: if_splits)
  from assms cid truthy obtain c where
    c: "find (\<lambda>c. js_strict_eq (child_id c) cid) children = Some c"
    by (auto simp: generateQuotation_def split: option.splits)
  from assms cid truthy c obtain fw where
    fw: "calculateFundedWeeklyHours (entitlement c) (stretchedOption c)
           (Some (operatingWeeks providerSettings)) = Inr fw"
    by (cases "calculateFundedWeeklyHours (entitlement c) (stretchedOption c)
                 (Some (operatingWeeks providerSettings))")
       (auto simp: generateQuotation_def Let_def)
  let ?booked = "getWeeklyHours (weeklyPattern c)"
  let ?chargeable = "js_max (Fin 0) (js_sub ?booked fw)"
  let ?cost = "js_mul ?chargeable (hourlyRate providerSettings)"
  let ?meals = "if includeMeals quotation
                then js_mul (mealsPerWeek quotation) (mealCharge providerSettings)
                else Fin 0"
  let ?consumables = "if includeConsumables quotation
                      then js_mul (consumablesCharge providerSettings) (Fin 5) else Fin 0"
  let ?total = "js_add (js_add ?cost ?meals) ?consumables"
  from assms cid truthy c fw have
    q: "q = \<lparr>child = c,
             weeklyBooked = ?booked,
             fundedWeekly = fw,
             chargeableHours = ?chargeable,
             weeklySessionCost = js_mul ?booked (hourlyRate providerSettings),
             weeklyFundedValue = js_mul (js_min ?booked fw) (hourlyRate providerSettings),
             weeklyChargeableHours = ?cost,
             weeklyMeals = ?meals,
             weeklyConsumables = ?consumables,
             weeklyTotal = ?total,
             periodTotal = js_mul ?total (weeksToQuote quotation),
             weeks = weeksToQuote quotation\<rparr>"
    by (simp add: generateQuotation_def Let_def)
  show thesis
    by (rule that [OF cid truthy c fw]) (simp_all add: q)
qed

lemma exceeds_allocation_nonneg:
  assumes "FUNDING_SCHEMES e = SchemeObj s" and "js_gt hours (hoursPerYear s)"
  shows "js_ge hours (Fin 0)"
  using registry_constants [OF assms(1)] assms(2)
  by (cases hours) (auto simp: js_gt_def js_ge_def js_le_def)

section \<open>Optimisation suggestions when no week remains\<close>

text \<open>
  Claim C1 says that, for a child whose under-utilisation warning fires while
  \<open>weeksRemaining = 0\<close>, the division \<open>shortfall / weeksRemaining\<close> is guarded and no
  suggestion carries \<open>NaN\<close> or \<open>Infinity\<close>. The code has no such guard. On
  2 November 2026 (as on every day from 22 September 2025, by \<open>final_term_week\<close>) no
  week remains, and for the initial roster and settings of the component each of the
  three under-utilisation warnings recommends an increase of \<open>Infinity\<close> hours.
\<close>

theorem optimisations_final_week_infinity:
  "js_sub (Fin 38) (getCurrentTermWeek 1793577600000) = Fin 0 \<and>
   on_value (optimisations 1793577600000 SAMPLE_CHILDREN initial_providerSettings)
     (\<lambda>suggestions. Inr (map (\<lambda>s. (stype s, recommendation s)) suggestions)) =
   Inr [(''warning'',
         [Txt ''Consider increasing weekly hours by '', Num PInf,
          Txt '' hours to maximise funding.'']),
        (''warning'',
         [Txt ''Consider increasing weekly hours by '', Num PInf,
          Txt '' hours to maximise funding.'']),
        (''info'',
         [Txt ''Parent will be charged for '', Fixed 1 (Fin (191 / 50)),
          Txt '' additional hours per week.'']),
        (''warning'',
         [Txt ''Consider increasing weekly hours by '', Num PInf,
          Txt '' hours to maximise funding.''])]"
  by code_simp

section \<open>Looking up a scheme\<close>

text \<open>
  Claim C2 says that an id outside the catalogue yields an explicit "scheme not found"
  result and never a thrown fault. The code does not do this: for an id that names no
  property of the registry the read is \<open>undefined\<close>, and
  \<open>calculateFundedWeeklyHours\<close> throws a TypeError on it.
\<close>

theorem unknown_scheme_throws:
  "''childminder_20'' \<notin> set scheme_ids \<and>
   FUNDING_SCHEMES ''childminder_20'' = Undefined \<and>
   calculateFundedWeeklyHours ''childminder_20'' False (Some (Fin 51)) = Inl TypeError"
  by (simp add: scheme_ids_def FUNDING_SCHEMES_def object_prototype_keys_def
      calculateFundedWeeklyHours_def)

text \<open>
  Claim C2, amended. The read \<open>FUNDING_SCHEMES[id]\<close> itself never throws. For each of
  the four catalogued ids it yields the scheme, and \<open>calculateFundedWeeklyHours\<close>
  returns a number. For any other id it yields no scheme (\<open>undefined\<close>, or an inherited
  member of \<open>Object.prototype\<close>); where it yields \<open>undefined\<close>,
  \<open>calculateFundedWeeklyHours\<close> throws a TypeError. The functions do not validate the
  id: the callers supply a catalogued one.
\<close>

theorem scheme_lookup_total_on_catalogue:
  "(sid \<in> set scheme_ids \<longrightarrow>
      (\<exists>s. FUNDING_SCHEMES sid = SchemeObj s) \<and>
      (\<exists>v. calculateFundedWeeklyHours sid st W = Inr v)) \<and>
   (sid \<notin> set scheme_ids \<longrightarrow>
      FUNDING_SCHEMES sid = Undefined \<or> FUNDING_SCHEMES sid = Inherited) \<and>
   (FUNDING_SCHEMES sid = Undefined \<longrightarrow>
      calculateFundedWeeklyHours sid st W = Inl TypeError)"
proof (intro conjI impI)
  assume "sid \<in> set scheme_ids"
  then show "\<exists>s. FUNDING_SCHEMES sid = SchemeObj s"
    by (simp add: registry_scheme_ids)
  then show "\<exists>v. calculateFundedWeeklyHours sid st W = Inr v"
    using registry_scheme_returns by blast
next
  assume "sid \<notin> set scheme_ids"
  then show "FUNDING_SCHEMES sid = Undefined \<or> FUNDING_SCHEMES sid = Inherited"
    by (simp add: FUNDING_SCHEMES_def scheme_ids_def)
next
  assume "FUNDING_SCHEMES sid = Undefined"
  then show "calculateFundedWeeklyHours sid st W = Inl TypeError"
    by (rule registry_Undefined_throws)
qed

theorem scheme_lookup_total_on_catalogue_witness:
  "''eligible_2yr'' \<in> set scheme_ids \<and>
   FUNDING_SCHEMES ''eligible_2yr'' = SchemeObj eligible_2yr \<and>
   calculateFundedWeeklyHours ''eligible_2yr'' True (Some (Fin 51)) = Inr (Fin (559 / 50)) \<and>
   ''nursery_grant'' \<notin> set scheme_ids \<and>
   FUNDING_SCHEMES ''nursery_grant'' = Undefined \<and>
   calculateFundedWeeklyHours ''nursery_grant'' True (Some (Fin 51)) = Inl TypeError"
proof -
  have a: "''eligible_2yr'' \<in> set scheme_ids"
    by (simp add: scheme_ids_def)
  have b: "''nursery_grant'' \<notin> set scheme_ids"
    by (simp add: scheme_ids_def)
  have c: "FUNDING_SCHEMES ''nursery_grant'' = Undefined"
    by (simp add: FUNDING_SCHEMES_def object_prototype_keys_def)
  have d: "FUNDING_SCHEMES ''eligible_2yr'' = SchemeObj eligible_2yr"
    by (simp add: FUNDING_SCHEMES_def)
  have e: "calculateFundedWeeklyHours ''eligible_2yr'' True (Some (Fin 51)) = Inr (Fin (559 / 50))"
    using scheme_lookup_total_on_catalogue [of "''eligible_2yr''" True "Some (Fin 51)"] a
    by (simp add: calculateFundedWeeklyHours_def FUNDING_SCHEMES_def eligible_2yr_def)
  have f: "calculateFundedWeeklyHours ''nursery_grant'' True (Some (Fin 51)) = Inl TypeError"
    using scheme_lookup_total_on_catalogue [of "''nursery_grant''" True "Some (Fin 51)"] c
    by simp
  from a b c d e f show ?thesis by simp
qed

section \<open>Funded weekly hours\<close>

text \<open>
  Claim C3. For every scheme of the registry and every third argument \<open>W\<close> (a number,
  a special value, or left out), the term-time call
  \<open>calculateFundedWeeklyHours(scheme, false, W)\<close> returns \<open>round2(hoursPerYear / 38)\<close>:
  the result does not depend on \<open>W\<close>.
\<close>

theorem term_time_funded_weekly_hours:
  assumes "FUNDING_SCHEMES sid = SchemeObj s"
  shows "\<exists>h. hoursPerYear s = Fin h \<and>
             (\<forall>W. calculateFundedWeeklyHours sid False W = Inr (Fin (spec_round2 (h / 38))))"
  using registry_constants [OF assms] funded_term_time [OF assms] by auto

theorem term_time_funded_weekly_hours_witness:
  "FUNDING_SCHEMES ''extended_30'' = SchemeObj extended_30 \<and>
   calculateFundedWeeklyHours ''extended_30'' False (Some (Fin 45)) = Inr (Fin 30) \<and>
   calculateFundedWeeklyHours ''extended_30'' False (Some (Fin 52)) = Inr (Fin 30)"
proof -
  have r: "FUNDING_SCHEMES ''extended_30'' = SchemeObj extended_30"
    by (simp add: FUNDING_SCHEMES_def)
  from term_time_funded_weekly_hours [OF r] obtain h where
    h: "hoursPerYear extended_30 = Fin h" and
    w: "\<And>W. calculateFundedWeeklyHours ''extended_30'' False W = Inr (Fin (spec_round2 (h / 38)))"
    by blast
  from h have "h = 1140" by (simp add: extended_30_def)
  then have "spec_round2 (h / 38) = 30" by (simp add: spec_round2_def)
  with r w show ?thesis by simp
qed

text \<open>
  Claim C7. For every scheme of the registry, the stretched funded weekly hours do not
  increase when the operating weeks increase within 39 to 52: for
  \<open>39 \<le> W1 \<le> W2 \<le> 52\<close> the rounded result at \<open>W2\<close> is at most the one at \<open>W1\<close>.
  The weeks range over the rationals, the integers among them.
\<close>

theorem stretched_funded_weekly_hours_antimono:
  fixes W1 W2 :: rat
  assumes "FUNDING_SCHEMES sid = SchemeObj s"
    and "39 \<le> W1" and "W1 \<le> W2" and "W2 \<le> 52"
  shows "\<exists>r1 r2. calculateFundedWeeklyHours sid True (Some (Fin W1)) = Inr (Fin r1) \<and>
                 calculateFundedWeeklyHours sid True (Some (Fin W2)) = Inr (Fin r2) \<and>
                 r2 \<le> r1 \<and> js_le (Fin r2) (Fin r1)"
proof -
  from registry_constants [OF assms(1)] obtain h where
    h: "hoursPerYear s = Fin h" and hpos: "0 \<le> h" by auto
  have pos: "0 < W1" "0 < W2" using assms by simp_all
  have 1: "calculateFundedWeeklyHours sid True (Some (Fin W1)) = Inr (Fin (spec_round2 (h / W1)))"
    using funded_stretched [OF assms(1) h] pos by simp
  have 2: "calculateFundedWeeklyHours sid True (Some (Fin W2)) = Inr (Fin (spec_round2 (h / W2)))"
    using funded_stretched [OF assms(1) h] pos by simp
  have "h / W2 \<le> h / W1"
    using hpos pos assms(3) by (simp add: frac_le)
  then have "spec_round2 (h / W2) \<le> spec_round2 (h / W1)"
    by (rule spec_round2_mono)
  with 1 2 show ?thesis by simp
qed

theorem stretched_funded_weekly_hours_antimono_witness:
  "FUNDING_SCHEMES ''extended_30'' = SchemeObj extended_30 \<and>
   (39::rat) \<le> 40 \<and> (40::rat) \<le> 51 \<and> (51::rat) \<le> 52 \<and>
   calculateFundedWeeklyHours ''extended_30'' True (Some (Fin 40)) = Inr (Fin (57 / 2)) \<and>
   calculateFundedWeeklyHours ''extended_30'' True (Some (Fin 51)) = Inr (Fin (447 / 20)) \<and>
   js_le (Fin (447 / 20)) (Fin (57 / 2))"
proof -
  have r: "FUNDING_SCHEMES ''extended_30'' = SchemeObj extended_30"
    by (simp add: FUNDING_SCHEMES_def)
  have a: "calculateFundedWeeklyHours ''extended_30'' True (Some (Fin 40)) = Inr (Fin (57 / 2))"
    by (simp add: calculateFundedWeeklyHours_def FUNDING_SCHEMES_def extended_30_def)
  have b: "calculateFundedWeeklyHours ''extended_30'' True (Some (Fin 51)) = Inr (Fin (447 / 20))"
    by (simp add: calculateFundedWeeklyHours_def FUNDING_SCHEMES_def extended_30_def)
  from stretched_funded_weekly_hours_antimono [OF r, of 40 51] obtain r1 r2 where
    "calculateFundedWeeklyHours ''extended_30'' True (Some (Fin 40)) = Inr (Fin r1)"
    "calculateFundedWeeklyHours ''extended_30'' True (Some (Fin 51)) = Inr (Fin r2)"
    "js_le (Fin r2) (Fin r1)"
    by auto
  with a b have "js_le (Fin (447 / 20)) (Fin (57 / 2))" by (metis sum.inject(2))
  with a b r show ?thesis by simp
qed

section \<open>The summary\<close>

text \<open>
  Claim C6 says that \<open>totalRemainingHours\<close> is \<open>totalFundedHours - totalUsedHours\<close>. The
  code does not subtract the totals: it adds up \<open>hoursPerYear - hoursUsed\<close> child by
  child, and in doubles the two orders round differently. For two children on 570-hour
  schemes with 90.1 and 128.3 used hours the summary holds 1140 funded hours, 218.4 used
  hours and \<open>921.5999999999999\<close> remaining hours, while \<open>1140 - 218.4\<close> is \<open>921.6\<close>, in
  doubles as in exact arithmetic.
\<close>

theorem summary_remaining_rounding:
  "summary [(SAMPLE_CHILDREN ! 1)\<lparr>hoursUsed := to_double (901 / 10)\<rparr>,
            (SAMPLE_CHILDREN ! 2)\<lparr>hoursUsed := to_double (1283 / 10)\<rparr>] =
     Inr \<lparr>totalChildren = Fin 2, totalFundedHours = Fin 1140,
          totalUsedHours = Fin (7684266864200909 / 35184372088832),
          totalRemainingHours = Fin (2026619832316723 / 2199023255552),
          averageUtilisation = Fin 19\<rparr> \<and>
   d_sub (Fin 1140) (Fin (7684266864200909 / 35184372088832)) =
     Fin (8106479329266893 / 8796093022208) \<and>
   js_sub (Fin 1140) (Fin (7684266864200909 / 35184372088832)) =
     Fin (32425917317067571 / 35184372088832) \<and>
   Fin (2026619832316723 / 2199023255552) \<noteq> Fin (8106479329266893 / 8796093022208) \<and>
   Fin (2026619832316723 / 2199023255552) \<noteq> Fin (32425917317067571 / 35184372088832)"
  by code_simp

text \<open>
  Claim C6, amended. Whenever the summary of a roster is computed, \<open>totalFundedHours\<close>
  and \<open>totalUsedHours\<close> are the running sums of the schemes' \<open>hoursPerYear\<close> and of the
  \<open>hoursUsed\<close>, and \<open>totalRemainingHours\<close> is the running sum, in roster order, of the
  differences \<open>hoursPerYear - hoursUsed\<close>, every operation rounded as a double; it is
  not clamped and may be negative. \<open>averageUtilisation\<close> is
  \<open>Math.round(totalUsedHours / totalFundedHours * 100)\<close> when \<open>totalFundedHours > 0\<close>
  and 0 otherwise. When every child has a catalogued entitlement and a whole number of
  used hours between 0 and 1000000, in a roster of at most 1000000 children, nothing is
  rounded and \<open>totalRemainingHours\<close> is exactly \<open>totalFundedHours - totalUsedHours\<close>.
  The summary is computed for every roster whose entitlements are catalogued, and for
  the empty roster the utilisation is 0.
\<close>

theorem summary_remaining_and_utilisation:
  "(\<forall>s. summary children = Inr s \<longrightarrow>
      (\<exists>hs. map (\<lambda>c. get_hoursPerYear (FUNDING_SCHEMES (entitlement c))) children = map Inr hs \<and>
            totalFundedHours s = foldl d_add (Fin 0) hs \<and>
            totalUsedHours s = foldl d_add (Fin 0) (map hoursUsed children) \<and>
            totalRemainingHours s =
              foldl d_add (Fin 0) (map2 (\<lambda>h c. d_sub h (hoursUsed c)) hs children)) \<and>
      averageUtilisation s =
        (if js_gt (totalFundedHours s) (Fin 0)
         then js_round (d_mul (d_div (totalUsedHours s) (totalFundedHours s)) (Fin 100))
         else Fin 0)) \<and>
   ((\<forall>c \<in> set children. entitlement c \<in> set scheme_ids \<and>
        (\<exists>n. hoursUsed c = Fin (of_int n) \<and> 0 \<le> n \<and> n \<le> 1000000)) \<and>
     length children \<le> 1000000 \<longrightarrow>
      (\<exists>s. summary children = Inr s \<and>
           totalRemainingHours s = js_sub (totalFundedHours s) (totalUsedHours s) \<and>
           totalRemainingHours s = d_sub (totalFundedHours s) (totalUsedHours s))) \<and>
   ((\<forall>c \<in> set children. entitlement c \<in> set scheme_ids) \<longrightarrow>
      (\<exists>s. summary children = Inr s)) \<and>
   summary [] =
     Inr \<lparr>totalChildren = Fin 0, totalFundedHours = Fin 0, totalUsedHours = Fin 0,
          totalRemainingHours = Fin 0, averageUtilisation = Fin 0\<rparr>"
proof (intro conjI allI impI)
  fix s assume s: "summary children = Inr s"
  then obtain f u r where
    loop: "summary_loop children (Fin 0, Fin 0, Fin 0) = Inr (f, u, r)" and
    fields: "totalFundedHours s = f" "totalUsedHours s = u" "totalRemainingHours s = r"
      "averageUtilisation s =
         (if js_gt f (Fin 0) then js_round (d_mul (d_div u f) (Fin 100)) else Fin 0)"
    by (rule summary_InrE)
  from summary_loop_folds [OF loop] fields
  show "\<exists>hs. map (\<lambda>c. get_hoursPerYear (FUNDING_SCHEMES (entitlement c))) children = map Inr hs \<and>
            totalFundedHours s = foldl d_add (Fin 0) hs \<and>
            totalUsedHours s = foldl d_add (Fin 0) (map hoursUsed children) \<and>
            totalRemainingHours s =
              foldl d_add (Fin 0) (map2 (\<lambda>h c. d_sub h (hoursUsed c)) hs children)"
    by simp
  from fields show "averageUtilisation s =
        (if js_gt (totalFundedHours s) (Fin 0)
         then js_round (d_mul (d_div (totalUsedHours s) (totalFundedHours s)) (Fin 100))
         else Fin 0)"
    by simp
next
  assume "(\<forall>c \<in> set children. entitlement c \<in> set scheme_ids \<and>
        (\<exists>n. hoursUsed c = Fin (of_int n) \<and> 0 \<le> n \<and> n \<le> 1000000)) \<and>
     length children \<le> 1000000"
  then show "\<exists>s. summary children = Inr s \<and>
           totalRemainingHours s = js_sub (totalFundedHours s) (totalUsedHours s) \<and>
           totalRemainingHours s = d_sub (totalFundedHours s) (totalUsedHours s)"
    using summary_whole_hours by blast
next
  assume "\<forall>c \<in> set children. entitlement c \<in> set scheme_ids"
  then show "\<exists>s. summary children = Inr s"
    by (rule summary_total)
next
  show "summary [] =
     Inr \<lparr>totalChildren = Fin 0, totalFundedHours = Fin 0, totalUsedHours = Fin 0,
          totalRemainingHours = Fin 0, averageUtilisation = Fin 0\<rparr>"
    by (simp add: summary_def js_gt_def)
qed

text \<open>A child who used 600 of 570 funded hours: 30 hours below zero remain.\<close>

theorem summary_remaining_and_utilisation_witness:
  "summary [(SAMPLE_CHILDREN ! 1)\<lparr>hoursUsed := Fin 600\<rparr>] =
     Inr \<lparr>totalChildren = Fin 1, totalFundedHours = Fin 570, totalUsedHours = Fin 600,
          totalRemainingHours = Fin (- 30), averageUtilisation = Fin 105\<rparr> \<and>
   js_sub (Fin 570) (Fin 600) = Fin (- 30) \<and>
   d_sub (Fin 570) (Fin 600) = Fin (- 30) \<and>
   js_lt (Fin (- 30)) (Fin 0) \<and>
   js_gt (Fin 570) (Fin 0) \<and>
   js_round (d_mul (d_div (Fin 600) (Fin 570)) (Fin 100)) = Fin 105"
proof -
  let ?cs = "[(SAMPLE_CHILDREN ! 1)\<lparr>hoursUsed := Fin 600\<rparr>]"
  let ?s = "\<lparr>totalChildren = Fin 1, totalFundedHours = Fin 570, totalUsedHours = Fin 600,
          totalRemainingHours = Fin (- 30), averageUtilisation = Fin 105\<rparr>"
  have e: "summary ?cs = Inr ?s"
    by code_simp
  have "Fin 600 = Fin (of_int 600)" by simp
  then have whole: "\<forall>c \<in> set ?cs. entitlement c \<in> set scheme_ids \<and>
        (\<exists>n. hoursUsed c = Fin (of_int n) \<and> 0 \<le> n \<and> n \<le> 1000000)"
    by (auto simp: SAMPLE_CHILDREN_def scheme_ids_def intro!: exI [of _ 600])
  have len: "length ?cs \<le> 1000000" by simp
  from summary_remaining_and_utilisation [of ?cs] whole len obtain s where
    s: "summary ?cs = Inr s"
      "totalRemainingHours s = js_sub (totalFundedHours s) (totalUsedHours s)"
      "totalRemainingHours s = d_sub (totalFundedHours s) (totalUsedHours s)"
    by blast
  from s(1) e have "s = ?s" by simp
  with s(2,3) have
    r: "js_sub (Fin 570) (Fin 600) = Fin (- 30)" "d_sub (Fin 570) (Fin 600) = Fin (- 30)"
    by simp_all
  from summary_remaining_and_utilisation [of ?cs] e have
    "averageUtilisation ?s =
        (if js_gt (totalFundedHours ?s) (Fin 0)
         then js_round (d_mul (d_div (totalUsedHours ?s) (totalFundedHours ?s)) (Fin 100))
         else Fin 0)"
    by blast
  then have a: "js_round (d_mul (d_div (Fin 600) (Fin 570)) (Fin 100)) = Fin 105"
    by simp
  from e r a show ?thesis
    by simp
qed

section \<open>Recording hours\<close>

text \<open>
  Claim C9. For every child that \<open>updateChildHours(id, hours)\<close> addresses and every
  \<open>hours\<close>, the stored \<open>hoursUsed\<close> is \<open>Math.max(0, hours)\<close>. It is never below 0,
  and for every number, finite or infinite, it is at least 0: a negative input is
  stored as 0. An input that is not negative is stored as it is, also when it exceeds
  the \<open>hoursPerYear\<close> of the child's scheme: there is no upper cap. (Only \<open>NaN\<close>, which
  is no hours value and which the callers replace by 0 before the call, would be
  stored as \<open>NaN\<close>.)
\<close>

theorem updateChildHours_clamps_below_only:
  assumes "k < length children"
    and "js_strict_eq (child_id (children ! k)) i"
  shows "hoursUsed (updateChildHours i hours children ! k) = js_max (Fin 0) hours \<and>
         \<not> js_lt (hoursUsed (updateChildHours i hours children ! k)) (Fin 0) \<and>
         (hours \<noteq> NaN \<longrightarrow>
            js_ge (hoursUsed (updateChildHours i hours children ! k)) (Fin 0)) \<and>
         (js_lt hours (Fin 0) \<longrightarrow>
            hoursUsed (updateChildHours i hours children ! k) = Fin 0) \<and>
         (js_ge hours (Fin 0) \<longrightarrow>
            hoursUsed (updateChildHours i hours children ! k) = hours) \<and>
         (\<forall>s. FUNDING_SCHEMES (entitlement (children ! k)) = SchemeObj s \<and>
              js_gt hours (hoursPerYear s) \<longrightarrow>
            hoursUsed (updateChildHours i hours children ! k) = hours)"
proof -
  from assms have
    stored: "hoursUsed (updateChildHours i hours children ! k) = js_max (Fin 0) hours"
    by (simp add: updateChildHours_def)
  from js_max_zero_cases [of hours] js_max_zero_not_negative [of hours]
    exceeds_allocation_nonneg
  show ?thesis
    unfolding stored by blast
qed

theorem updateChildHours_clamps_below_only_witness:
  "1 < length SAMPLE_CHILDREN \<and>
   js_strict_eq (child_id (SAMPLE_CHILDREN ! 1)) (Fin 2) \<and>
   js_lt (Fin (- 3)) (Fin 0) \<and>
   hoursUsed (updateChildHours (Fin 2) (Fin (- 3)) SAMPLE_CHILDREN ! 1) = Fin 0 \<and>
   FUNDING_SCHEMES (entitlement (SAMPLE_CHILDREN ! 1)) = SchemeObj eligible_2yr \<and>
   js_gt (Fin 600) (hoursPerYear eligible_2yr) \<and>
   hoursUsed (updateChildHours (Fin 2) (Fin 600) SAMPLE_CHILDREN ! 1) = Fin 600 \<and>
   js_ge (Fin 600) (Fin 0)"
proof -
  have k: "1 < length SAMPLE_CHILDREN"
    by (simp add: SAMPLE_CHILDREN_def)
  have m: "js_strict_eq (child_id (SAMPLE_CHILDREN ! 1)) (Fin 2)"
    by (simp add: SAMPLE_CHILDREN_def js_strict_eq_def)
  have r: "FUNDING_SCHEMES (entitlement (SAMPLE_CHILDREN ! 1)) = SchemeObj eligible_2yr"
    by (simp add: SAMPLE_CHILDREN_def FUNDING_SCHEMES_def)
  have g: "js_gt (Fin 600) (hoursPerYear eligible_2yr)"
    by (simp add: eligible_2yr_def)
  have n: "js_lt (Fin (- 3)) (Fin 0)"
    by simp
  from updateChildHours_clamps_below_only [OF k m, of "Fin (- 3)"] n
  have a: "hoursUsed (updateChildHours (Fin 2) (Fin (- 3)) SAMPLE_CHILDREN ! 1) = Fin 0"
    by simp
  from updateChildHours_clamps_below_only [OF k m, of "Fin 600"] r g
  have b: "hoursUsed (updateChildHours (Fin 2) (Fin 600) SAMPLE_CHILDREN ! 1) = Fin 600"
    by blast
  from k m n a r g b show ?thesis
    by simp
qed

section \<open>Quotations\<close>

text \<open>
  Claim C8 says that a request whose \<open>childId\<close> matches a roster child always gets a
  breakdown. The guard \<open>!quotation.childId\<close> also holds for the number 0: a request for
  a child whose id is 0 matches that child and still gets \<open>null\<close>.
\<close>

theorem generateQuotation_zero_id_no_quote:
  "js_strict_eq
     (child_id \<lparr>child_id = Fin 0, child_name = ''Ada Young'', dob = ''2022-05-01'',
                entitlement = ''universal_15'',
                weeklyPattern = [(''mon'', Fin 5), (''tue'', Fin 5), (''wed'', Fin 5),
                                 (''thu'', Fin 5), (''fri'', Fin 0)],
                hoursUsed = Fin 0, stretchedOption = False\<rparr>)
     (Fin 0) \<and>
   generateQuotation
     [\<lparr>child_id = Fin 0, child_name = ''Ada Young'', dob = ''2022-05-01'',
       entitlement = ''universal_15'',
       weeklyPattern = [(''mon'', Fin 5), (''tue'', Fin 5), (''wed'', Fin 5),
                        (''thu'', Fin 5), (''fri'', Fin 0)],
       hoursUsed = Fin 0, stretchedOption = False\<rparr>]
     initial_providerSettings
     (initial_quotation\<lparr>childId := Some (Fin 0)\<rparr>) = Inr None"
  by (simp add: js_strict_eq_def generateQuotation_def js_truthy_def)

text \<open>
  Claim C8, amended. \<open>generateQuotation\<close> returns \<open>null\<close>, and throws nothing, when
  \<open>childId\<close> is \<open>null\<close>, when it matches no child of the roster, and when it is 0 or
  \<open>NaN\<close>. When \<open>childId\<close> is any other number and matches a roster child, the first such
  child having a catalogued entitlement, it returns a breakdown for that child.
\<close>

theorem generateQuotation_none_or_quote:
  "(childId quotation = None \<longrightarrow>
      generateQuotation children providerSettings quotation = Inr None) \<and>
   (\<forall>cid. childId quotation = Some cid \<and>
      (\<forall>c \<in> set children. \<not> js_strict_eq (child_id c) cid) \<longrightarrow>
      generateQuotation children providerSettings quotation = Inr None) \<and>
   (\<forall>cid. childId quotation = Some cid \<and> \<not> js_truthy cid \<longrightarrow>
      generateQuotation children providerSettings quotation = Inr None) \<and>
   (\<forall>cid c. childId quotation = Some cid \<and> js_truthy cid \<and>
      find (\<lambda>c. js_strict_eq (child_id c) cid) children = Some c \<and>
      entitlement c \<in> set scheme_ids \<longrightarrow>
      (\<exists>q. generateQuotation children providerSettings quotation = Inr (Some q) \<and>
           child q = c))"
  using generateQuotation_none_selected generateQuotation_falsy
    generateQuotation_no_match generateQuotation_match
  by blast

theorem generateQuotation_none_or_quote_witness:
  "generateQuotation SAMPLE_CHILDREN initial_providerSettings initial_quotation = Inr None \<and>
   generateQuotation SAMPLE_CHILDREN initial_providerSettings
     (initial_quotation\<lparr>childId := Some (Fin 9)\<rparr>) = Inr None \<and>
   generateQuotation SAMPLE_CHILDREN initial_providerSettings
     (initial_quotation\<lparr>childId := Some NaN\<rparr>) = Inr None \<and>
   js_truthy (Fin 3) \<and>
   find (\<lambda>c. js_strict_eq (child_id c) (Fin 3)) SAMPLE_CHILDREN = Some (SAMPLE_CHILDREN ! 2) \<and>
   entitlement (SAMPLE_CHILDREN ! 2) \<in> set scheme_ids \<and>
   (\<exists>q. generateQuotation SAMPLE_CHILDREN initial_providerSettings
          (initial_quotation\<lparr>childId := Some (Fin 3)\<rparr>) = Inr (Some q) \<and>
        child q = SAMPLE_CHILDREN ! 2)"
proof -
  have none: "childId initial_quotation = None"
    by (simp add: initial_quotation_def)
  have nine: "\<forall>c \<in> set SAMPLE_CHILDREN. \<not> js_strict_eq (child_id c) (Fin 9)"
    by (simp add: SAMPLE_CHILDREN_def js_strict_eq_def)
  have falsy: "\<not> js_truthy NaN"
    by (simp add: js_truthy_def)
  have truthy: "js_truthy (Fin 3)"
    by (simp add: js_truthy_def)
  have found:
    "find (\<lambda>c. js_strict_eq (child_id c) (Fin 3)) SAMPLE_CHILDREN = Some (SAMPLE_CHILDREN ! 2)"
    by (simp add: SAMPLE_CHILDREN_def js_strict_eq_def)
  have known: "entitlement (SAMPLE_CHILDREN ! 2) \<in> set scheme_ids"
    by (simp add: SAMPLE_CHILDREN_def scheme_ids_def)
  have 1: "generateQuotation SAMPLE_CHILDREN initial_providerSettings initial_quotation = Inr None"
    using generateQuotation_none_or_quote
            [of initial_quotation SAMPLE_CHILDREN initial_providerSettings] none
    by blast
  have 2: "generateQuotation SAMPLE_CHILDREN initial_providerSettings
             (initial_quotation\<lparr>childId := Some (Fin 9)\<rparr>) = Inr None"
    using generateQuotation_none_or_quote
            [of "initial_quotation\<lparr>childId := Some (Fin 9)\<rparr>" SAMPLE_CHILDREN
                initial_providerSettings] nine
    by simp
  have 3: "generateQuotation SAMPLE_CHILDREN initial_providerSettings
             (initial_quotation\<lparr>childId := Some NaN\<rparr>) = Inr None"
    using generateQuotation_none_or_quote
            [of "initial_quotation\<lparr>childId := Some NaN\<rparr>" SAMPLE_CHILDREN
                initial_providerSettings] falsy
    by simp
  have 4: "\<exists>q. generateQuotation SAMPLE_CHILDREN initial_providerSettings
                 (initial_quotation\<lparr>childId := Some (Fin 3)\<rparr>) = Inr (Some q) \<and>
               child q = SAMPLE_CHILDREN ! 2"
    using generateQuotation_none_or_quote
            [of "initial_quotation\<lparr>childId := Some (Fin 3)\<rparr>" SAMPLE_CHILDREN
                initial_providerSettings] truthy found known
    by simp
  from 1 2 3 4 truthy found known show ?thesis
    by simp
qed

text \<open>
  Claim C4. In every quote that \<open>generateQuotation\<close> returns, \<open>chargeableHours\<close> is
  \<open>Math.max(0, weeklyBooked - fundedWeekly)\<close>, it is never below 0, and it is exactly 0
  when \<open>fundedWeekly\<close> exceeds \<open>weeklyBooked\<close>. For finite hours it is the number
  \<open>max 0 (booked - funded)\<close>, at least 0. This holds whatever the signs of the hours:
  the claim's conditions \<open>weeklyBooked \<ge> 0\<close> and \<open>fundedWeekly \<ge> 0\<close> are not needed.
\<close>

theorem chargeable_hours_never_negative:
  assumes "generateQuotation children providerSettings quotation = Inr (Some q)"
  shows "chargeableHours q = js_max (Fin 0) (js_sub (weeklyBooked q) (fundedWeekly q)) \<and>
         \<not> js_lt (chargeableHours q) (Fin 0) \<and>
         (js_gt (fundedWeekly q) (weeklyBooked q) \<longrightarrow> chargeableHours q = Fin 0) \<and>
         (\<forall>b f. weeklyBooked q = Fin b \<and> fundedWeekly q = Fin f \<longrightarrow>
            chargeableHours q = Fin (max 0 (b - f)) \<and> js_ge (chargeableHours q) (Fin 0))"
proof -
  from assms have
    ch: "chargeableHours q = js_max (Fin 0) (js_sub (weeklyBooked q) (fundedWeekly q))"
    by (rule generateQuotation_SomeE)
  show ?thesis
    by (simp add: ch js_max_zero_not_negative js_max_zero_funded_exceeds)
qed

text \<open>A child booked for 12 hours a week with 15 funded: nothing is chargeable.\<close>

theorem chargeable_hours_never_negative_witness:
  "generateQuotation
     [\<lparr>child_id = Fin 7, child_name = ''Noah Reid'', dob = ''2021-11-30'',
       entitlement = ''universal_15'',
       weeklyPattern = [(''mon'', Fin 4), (''tue'', Fin 4), (''wed'', Fin 4),
                        (''thu'', Fin 0), (''fri'', Fin 0)],
       hoursUsed = Fin 120, stretchedOption = False\<rparr>]
     initial_providerSettings
     (initial_quotation\<lparr>childId := Some (Fin 7)\<rparr>) =
   Inr (Some
     \<lparr>child =
        \<lparr>child_id = Fin 7, child_name = ''Noah Reid'', dob = ''2021-11-30'',
         entitlement = ''universal_15'',
         weeklyPattern = [(''mon'', Fin 4), (''tue'', Fin 4), (''wed'', Fin 4),
                          (''thu'', Fin 0), (''fri'', Fin 0)],
         hoursUsed = Fin 120, stretchedOption = False\<rparr>,
      weeklyBooked = Fin 12, fundedWeekly = Fin 15, chargeableHours = Fin 0,
      weeklySessionCost = Fin 90, weeklyFundedValue = Fin 90,
      weeklyChargeableHours = Fin 0, weeklyMeals = Fin (35 / 2),
      weeklyConsumables = Fin (15 / 2), weeklyTotal = Fin 25, periodTotal = Fin 100,
      weeks = Fin 4\<rparr>) \<and>
   js_ge (Fin 12) (Fin 0) \<and> js_ge (Fin 15) (Fin 0) \<and> js_gt (Fin 15) (Fin 12) \<and>
   \<not> js_lt (Fin 0) (Fin 0) \<and> js_max (Fin 0) (js_sub (Fin 12) (Fin 15)) = Fin 0"
proof -
  let ?c = "\<lparr>child_id = Fin 7, child_name = ''Noah Reid'', dob = ''2021-11-30'',
       entitlement = ''universal_15'',
       weeklyPattern = [(''mon'', Fin 4), (''tue'', Fin 4), (''wed'', Fin 4),
                        (''thu'', Fin 0), (''fri'', Fin 0)],
       hoursUsed = Fin 120, stretchedOption = False\<rparr>"
  let ?q = "\<lparr>child = ?c,
      weeklyBooked = Fin 12, fundedWeekly = Fin 15, chargeableHours = Fin 0,
      weeklySessionCost = Fin 90, weeklyFundedValue = Fin 90,
      weeklyChargeableHours = Fin 0, weeklyMeals = Fin (35 / 2),
      weeklyConsumables = Fin (15 / 2), weeklyTotal = Fin 25, periodTotal = Fin 100,
      weeks = Fin 4\<rparr>"
  have e: "generateQuotation [?c] initial_providerSettings
             (initial_quotation\<lparr>childId := Some (Fin 7)\<rparr>) = Inr (Some ?q)"
    by code_simp
  from chargeable_hours_never_negative [OF e] e show ?thesis
    by simp
qed

text \<open>
  Claim C5. In every quote that \<open>generateQuotation\<close> returns, the weekly consumables
  cost is \<open>consumablesCharge * 5\<close> when \<open>includeConsumables\<close> is set and 0 otherwise,
  whatever the attendance pattern; the weekly meals cost is
  \<open>mealsPerWeek * mealCharge\<close> when \<open>includeMeals\<close> is set and 0 otherwise; the weekly
  total is the sum of the chargeable-hours cost, the meals cost and the consumables
  cost; and the period total is the weekly total times \<open>weeksToQuote\<close>.
\<close>

theorem quote_cost_breakdown:
  assumes "generateQuotation children providerSettings quotation = Inr (Some q)"
  shows "weeklyConsumables q =
           (if includeConsumables quotation
            then js_mul (consumablesCharge providerSettings) (Fin 5) else Fin 0) \<and>
         weeklyMeals q =
           (if includeMeals quotation
            then js_mul (mealsPerWeek quotation) (mealCharge providerSettings) else Fin 0) \<and>
         weeklyChargeableHours q = js_mul (chargeableHours q) (hourlyRate providerSettings) \<and>
         weeklyTotal q =
           js_add (js_add (weeklyChargeableHours q) (weeklyMeals q)) (weeklyConsumables q) \<and>
         periodTotal q = js_mul (weeklyTotal q) (weeksToQuote quotation) \<and>
         weeks q = weeksToQuote quotation \<and>
         (\<forall>c. includeConsumables quotation \<and> consumablesCharge providerSettings = Fin c \<longrightarrow>
            weeklyConsumables q = Fin (c * 5))"
  using assms by (elim generateQuotation_SomeE) simp

text \<open>The second sample child, who attends three days: consumables are 5 times 1.50.\<close>

theorem quote_cost_breakdown_witness:
  "generateQuotation SAMPLE_CHILDREN initial_providerSettings
     (initial_quotation\<lparr>childId := Some (Fin 2)\<rparr>) =
   Inr (Some
     \<lparr>child = SAMPLE_CHILDREN ! 1,
      weeklyBooked = Fin 15, fundedWeekly = Fin (559 / 50),
      chargeableHours = Fin (191 / 50), weeklySessionCost = Fin (225 / 2),
      weeklyFundedValue = Fin (1677 / 20), weeklyChargeableHours = Fin (573 / 20),
      weeklyMeals = Fin (35 / 2), weeklyConsumables = Fin (15 / 2),
      weeklyTotal = Fin (1073 / 20), periodTotal = Fin (1073 / 5), weeks = Fin 4\<rparr>) \<and>
   js_mul (consumablesCharge initial_providerSettings) (Fin 5) = Fin (15 / 2) \<and>
   js_mul (Fin 5) (mealCharge initial_providerSettings) = Fin (35 / 2) \<and>
   js_mul (Fin (191 / 50)) (hourlyRate initial_providerSettings) = Fin (573 / 20) \<and>
   js_add (js_add (Fin (573 / 20)) (Fin (35 / 2))) (Fin (15 / 2)) = Fin (1073 / 20) \<and>
   js_mul (Fin (1073 / 20)) (Fin 4) = Fin (1073 / 5)"
proof -
  let ?q = "\<lparr>child = SAMPLE_CHILDREN ! 1,
      weeklyBooked = Fin 15, fundedWeekly = Fin (559 / 50),
      chargeableHours = Fin (191 / 50), weeklySessionCost = Fin (225 / 2),
      weeklyFundedValue = Fin (1677 / 20), weeklyChargeableHours = Fin (573 / 20),
      weeklyMeals = Fin (35 / 2), weeklyConsumables = Fin (15 / 2),
      weeklyTotal = Fin (1073 / 20), periodTotal = Fin (1073 / 5), weeks = Fin 4\<rparr>"
  have e: "generateQuotation SAMPLE_CHILDREN initial_providerSettings
             (initial_quotation\<lparr>childId := Some (Fin 2)\<rparr>) = Inr (Some ?q)"
    by code_simp
  from quote_cost_breakdown [OF e] e show ?thesis
    by (simp add: initial_quotation_def initial_providerSettings_def)
qed

text \<open>
  Claim C10. In every quote that \<open>generateQuotation\<close> returns with finite booked hours
  \<open>b\<close>, funded hours \<open>f\<close> and hourly rate \<open>r\<close>, the session cost is \<open>b * r\<close>, the
  funded value is \<open>min b f * r\<close>, the chargeable cost is \<open>max 0 (b - f) * r\<close>, and
  in exact arithmetic the session cost is the sum of the other two. The signs of
  \<open>b\<close>, \<open>f\<close> and \<open>r\<close> do not matter.
\<close>

theorem quote_cost_decomposition:
  assumes "generateQuotation children providerSettings quotation = Inr (Some q)"
    and "weeklyBooked q = Fin b" and "fundedWeekly q = Fin f"
    and "hourlyRate providerSettings = Fin r"
  shows "weeklySessionCost q = Fin (b * r) \<and>
         weeklyFundedValue q = Fin (min b f * r) \<and>
         weeklyChargeableHours q = Fin (max 0 (b - f) * r) \<and>
         b * r = min b f * r + max 0 (b - f) * r \<and>
         weeklySessionCost q = js_add (weeklyFundedValue q) (weeklyChargeableHours q)"
proof -
  from assms(1) have
    s: "weeklySessionCost q = js_mul (weeklyBooked q) (hourlyRate providerSettings)"
    by (rule generateQuotation_SomeE)
  from assms(1) have
    v: "weeklyFundedValue q =
          js_mul (js_min (weeklyBooked q) (fundedWeekly q)) (hourlyRate providerSettings)"
    by (rule generateQuotation_SomeE)
  from assms(1) have
    c: "weeklyChargeableHours q = js_mul (chargeableHours q) (hourlyRate providerSettings)"
    by (rule generateQuotation_SomeE)
  from assms(1) have
    h: "chargeableHours q = js_max (Fin 0) (js_sub (weeklyBooked q) (fundedWeekly q))"
    by (rule generateQuotation_SomeE)
  have "min b f + max 0 (b - f) = b"
    by (simp add: min_def max_def)
  then have id: "b * r = min b f * r + max 0 (b - f) * r"
    by (metis distrib_right)
  from s v c h assms(2-4) id show ?thesis
    by simp
qed

text \<open>The third sample child: 16 booked hours, 15 funded, at 7.50 an hour.\<close>

theorem quote_cost_decomposition_witness:
  "generateQuotation SAMPLE_CHILDREN initial_providerSettings
     (initial_quotation\<lparr>childId := Some (Fin 3)\<rparr>) =
   Inr (Some
     \<lparr>child = SAMPLE_CHILDREN ! 2,
      weeklyBooked = Fin 16, fundedWeekly = Fin 15,
      chargeableHours = Fin 1, weeklySessionCost = Fin 120,
      weeklyFundedValue = Fin (225 / 2), weeklyChargeableHours = Fin (15 / 2),
      weeklyMeals = Fin (35 / 2), weeklyConsumables = Fin (15 / 2),
      weeklyTotal = Fin (65 / 2), periodTotal = Fin 130, weeks = Fin 4\<rparr>) \<and>
   hourlyRate initial_providerSettings = Fin (15 / 2) \<and>
   js_add (Fin (225 / 2)) (Fin (15 / 2)) = Fin 120 \<and>
   (16::rat) * (15 / 2) = min 16 15 * (15 / 2) + max 0 (16 - 15) * (15 / 2)"
proof -
  let ?q = "\<lparr>child = SAMPLE_CHILDREN ! 2,
      weeklyBooked = Fin 16, fundedWeekly = Fin 15,
      chargeableHours = Fin 1, weeklySessionCost = Fin 120,
      weeklyFundedValue = Fin (225 / 2), weeklyChargeableHours = Fin (15 / 2),
      weeklyMeals = Fin (35 / 2), weeklyConsumables = Fin (15 / 2),
      weeklyTotal = Fin (65 / 2), periodTotal = Fin 130, weeks = Fin 4\<rparr>"
  have e: "generateQuotation SAMPLE_CHILDREN initial_providerSettings
             (initial_quotation\<lparr>childId := Some (Fin 3)\<rparr>) = Inr (Some ?q)"
    by code_simp
  have r: "hourlyRate initial_providerSettings = Fin (15 / 2)"
    by (simp add: initial_providerSettings_def)
  from quote_cost_decomposition [OF e _ _ r, of 16 15] e r show ?thesis
    by simp
qed

end
